theory Spec2Isabelle
  imports Complex_Main "HOL-Library.AList" "HOL-Library.Char_ord" "HOL-Library.List_Lexorder"
begin

section \<open>Values read from JSON files\<close>

text \<open>
  The dashboard and the policy loader work on what Python's \<open>json\<close> module returns:
  \<open>None\<close>, booleans, integers, floats, strings, lists and dictionaries. A dictionary is
  an association list read with \<open>map_of\<close> and written with \<open>AList.update\<close> (a key keeps
  its place when it is overwritten and is appended otherwise, as in a Python dict).
  Python floats are idealised as rationals: rounding, infinities and NaN are outside
  this model.
\<close>

datatype json =
    JNull
  | JBool bool
  | JInt int
  | JFloat rat
  | JStr string
  | JArr "json list"
  | JObj "(string \<times> json) list"

datatype py_error =
    AttributeError
  | TypeError
  | KeyError
  | NotADirectoryError
  | FileNotFoundError
  | JSONDecodeError
  | ValueError_invalid_json
  | ValueError_loading

text \<open>Sequencing of calls that may raise: the first exception ends the computation.\<close>

definition and_then :: "py_error + 'a \<Rightarrow> ('a \<Rightarrow> py_error + 'b) \<Rightarrow> py_error + 'b" where
  "and_then m f = (case m of Inl e \<Rightarrow> Inl e | Inr x \<Rightarrow> f x)"

text \<open>Python numbers: \<open>int\<close> (which \<open>bool\<close> is a subclass of) and \<open>float\<close>.\<close>

datatype pynum = PInt int | PFloat rat

fun to_num :: "json \<Rightarrow> pynum option" where
  "to_num (JBool b) = Some (PInt (if b then 1 else 0))"
| "to_num (JInt n) = Some (PInt n)"
| "to_num (JFloat q) = Some (PFloat q)"
| "to_num JNull = None"
| "to_num (JStr s) = None"
| "to_num (JArr xs) = None"
| "to_num (JObj kvs) = None"

fun num_val :: "pynum \<Rightarrow> rat" where
  "num_val (PInt n) = of_int n"
| "num_val (PFloat q) = q"

fun num_json :: "pynum \<Rightarrow> json" where
  "num_json (PInt n) = JInt n"
| "num_json (PFloat q) = JFloat q"

text \<open>\<open>a + b\<close> on numbers: two ints give an int, anything else a float.\<close>

fun num_add :: "pynum \<Rightarrow> pynum \<Rightarrow> pynum" where
  "num_add (PInt a) (PInt b) = PInt (a + b)"
| "num_add a b = PFloat (num_val a + num_val b)"

text \<open>
  \<open>sum(xs)\<close>: starts from the int \<open>0\<close> and adds from the left; adding anything that is
  not a number raises \<open>TypeError\<close>.
\<close>

fun sum_from :: "pynum \<Rightarrow> json list \<Rightarrow> py_error + pynum" where
  "sum_from acc [] = Inr acc"
| "sum_from acc (v # vs) =
     (case to_num v of
        None \<Rightarrow> Inl TypeError
      | Some n \<Rightarrow> sum_from (num_add acc n) vs)"

definition py_sum :: "json list \<Rightarrow> py_error + pynum" where
  "py_sum vs = sum_from (PInt 0) vs"

text \<open>Truth value of an object, as \<open>if x\<close> tests it.\<close>

fun truthy :: "json \<Rightarrow> bool" where
  "truthy JNull = False"
| "truthy (JBool b) = b"
| "truthy (JInt n) = (n \<noteq> 0)"
| "truthy (JFloat q) = (q \<noteq> 0)"
| "truthy (JStr s) = (s \<noteq> [])"
| "truthy (JArr xs) = (xs \<noteq> [])"
| "truthy (JObj kvs) = (kvs \<noteq> [])"

text \<open>\<open>d.get(k, default)\<close>: only a dict has the method.\<close>

fun py_get :: "json \<Rightarrow> string \<Rightarrow> json \<Rightarrow> py_error + json" where
  "py_get (JObj kvs) k d = Inr (case map_of kvs k of None \<Rightarrow> d | Some v \<Rightarrow> v)"
| "py_get JNull k d = Inl AttributeError"
| "py_get (JBool b) k d = Inl AttributeError"
| "py_get (JInt n) k d = Inl AttributeError"
| "py_get (JFloat q) k d = Inl AttributeError"
| "py_get (JStr s) k d = Inl AttributeError"
| "py_get (JArr xs) k d = Inl AttributeError"

text \<open>\<open>d[k]\<close> with a string key: \<open>KeyError\<close> on a dict without the key, \<open>TypeError\<close> on
  everything that is not a dict.\<close>

fun py_getitem :: "json \<Rightarrow> string \<Rightarrow> py_error + json" where
  "py_getitem (JObj kvs) k = (case map_of kvs k of None \<Rightarrow> Inl KeyError | Some v \<Rightarrow> Inr v)"
| "py_getitem JNull k = Inl TypeError"
| "py_getitem (JBool b) k = Inl TypeError"
| "py_getitem (JInt n) k = Inl TypeError"
| "py_getitem (JFloat q) k = Inl TypeError"
| "py_getitem (JStr s) k = Inl TypeError"
| "py_getitem (JArr xs) k = Inl TypeError"

text \<open>\<open>d[k] = v\<close> with a string key: \<open>TypeError\<close> on everything that is not a dict.
  The result is the updated dictionary.\<close>

type_synonym dict = "(string \<times> json) list"

fun py_setitem :: "json \<Rightarrow> string \<Rightarrow> json \<Rightarrow> py_error + dict" where
  "py_setitem (JObj kvs) k v = Inr (AList.update k v kvs)"
| "py_setitem JNull k v = Inl TypeError"
| "py_setitem (JBool b) k v = Inl TypeError"
| "py_setitem (JInt n) k v = Inl TypeError"
| "py_setitem (JFloat q) k v = Inl TypeError"
| "py_setitem (JStr s) k v = Inl TypeError"
| "py_setitem (JArr xs) k v = Inl TypeError"

section \<open>dashboard.py: calculate\_run\_summary\<close>

text \<open>
  \<open>[r.get(k, d) for r in results if r.get(k) is not None]\<close>: the comprehension of
  lines 210, 214 and 221. The first element that is not a dict raises.
\<close>

fun present_values :: "string \<Rightarrow> json \<Rightarrow> json list \<Rightarrow> py_error + json list" where
  "present_values k d [] = Inr []"
| "present_values k d (r # rs) =
     and_then (py_get r k JNull) (\<lambda>t.
     and_then (py_get r k d) (\<lambda>v.
     and_then (present_values k d rs) (\<lambda>vs.
     Inr (if t \<noteq> JNull then v # vs else vs))))"

text \<open>\<open>sum(xs) / len(xs) if xs else d\<close>; true division always gives a float.\<close>

definition mean_or :: "json \<Rightarrow> json list \<Rightarrow> py_error + json" where
  "mean_or d xs =
     (if xs = [] then Inr d
      else and_then (py_sum xs) (\<lambda>s. Inr (JFloat (num_val s / of_nat (length xs)))))"

text \<open>\<open>sum(1 for r in results if r.get("blocked", False))\<close>.\<close>

fun count_blocked :: "json list \<Rightarrow> py_error + nat" where
  "count_blocked [] = Inr 0"
| "count_blocked (r # rs) =
     and_then (py_get r ''blocked'' (JBool False)) (\<lambda>b.
     and_then (count_blocked rs) (\<lambda>n.
     Inr (if truthy b then Suc n else n)))"

definition empty_summary :: json where
  "empty_summary = JObj
     [(''total_prompts'', JInt 0),
      (''accuracy_rate'', JNull),
      (''avg_latency_ms'', JNull),
      (''blocked_count'', JInt 0),
      (''avg_toxicity'', JNull)]"

definition calculate_run_summary :: "json list \<Rightarrow> py_error + json" where
  "calculate_run_summary results =
     (if results = [] then Inr empty_summary
      else
        and_then (present_values ''accuracy'' JNull results) (\<lambda>accuracy_results.
        and_then (mean_or JNull accuracy_results) (\<lambda>accuracy_rate.
        and_then (present_values ''latency_ms'' (JInt 0) results) (\<lambda>latencies.
        and_then (mean_or JNull latencies) (\<lambda>avg_latency.
        and_then (count_blocked results) (\<lambda>blocked_count.
        and_then (present_values ''toxicity'' JNull results) (\<lambda>toxicities.
        and_then (mean_or JNull toxicities) (\<lambda>avg_toxicity.
        Inr (JObj
          [(''total_prompts'', JInt (int (length results))),
           (''accuracy_rate'', accuracy_rate),
           (''avg_latency_ms'', avg_latency),
           (''blocked_count'', JInt (int blocked_count)),
           (''avg_toxicity'', avg_toxicity)])))))))))"

section \<open>dashboard.py: the runs directory\<close>

text \<open>
  What the dashboard reads from disk. A JSON file is absent, or opening and decoding it
  raises, or \<open>json.load\<close> returns a value. A line of \<open>results.jsonl\<close> is blank (skipped by
  \<open>line.strip()\<close>), or \<open>json.loads\<close> raises on it, or it decodes to a value.
\<close>

datatype json_file = NoFile | Unreadable | InvalidJSON | Doc json

datatype jsonl_line = Blank | Malformed | Parsed json

datatype jsonl_file = NoResults | UnreadableResults | Lines "jsonl_line list"

text \<open>An entry of the runs directory: a plain file, or a directory with its two files.\<close>

datatype node = FileNode | DirNode json_file jsonl_file

datatype runs_dir = Missing | NotADir | Dir "(string \<times> node) list"

text \<open>
  \<open>load_results\<close>: the exception handler encloses the whole loop, so the first line that
  fails to decode ends the reading and the records before it are returned.
\<close>

fun read_lines :: "jsonl_line list \<Rightarrow> json list" where
  "read_lines [] = []"
| "read_lines (Blank # ls) = read_lines ls"
| "read_lines (Malformed # ls) = []"
| "read_lines (Parsed j # ls) = j # read_lines ls"

fun load_results :: "jsonl_file \<Rightarrow> json list" where
  "load_results (Lines ls) = read_lines ls"
| "load_results UnreadableResults = []"
| "load_results NoResults = []"

text \<open>
  The body of the \<open>try\<close> block of \<open>get_recent_runs\<close> (lines 97 to 106) for the directory
  \<open>run_name\<close>, up to the run object that is appended. Every exception is caught by the
  caller, which then goes on with the next directory.
\<close>

definition load_run :: "string \<Rightarrow> json_file \<Rightarrow> jsonl_file \<Rightarrow> py_error + dict" where
  "load_run run_name meta_file results_file =
     (case meta_file of
        Doc meta \<Rightarrow>
          and_then
            (if results_file \<noteq> NoResults
             then and_then (calculate_run_summary (load_results results_file)) (\<lambda>summary.
                  and_then (py_setitem meta ''summary'' summary) (\<lambda>m. Inr (JObj m)))
             else Inr meta)
            (\<lambda>meta'. py_setitem meta' ''run_id'' (JStr run_name))
      | InvalidJSON \<Rightarrow> Inl JSONDecodeError
      | Unreadable \<Rightarrow> Inl JSONDecodeError
      | NoFile \<Rightarrow> Inl FileNotFoundError)"

text \<open>
  \<open>sorted(xs, reverse=True)\<close> on directory entries compares their names; the sort is
  stable and a reversed sort keeps the original order of equal elements.
\<close>

definition sorted_reverse :: "(string \<times> node) list \<Rightarrow> (string \<times> node) list" where
  "sorted_reverse es = rev (sort_key fst (rev es))"

text \<open>The \<open>for\<close> loop of \<open>get_recent_runs\<close> with its \<open>continue\<close> and \<open>break\<close>.\<close>

fun scan_runs :: "int \<Rightarrow> (string \<times> node) list \<Rightarrow> dict list \<Rightarrow> dict list" where
  "scan_runs limit [] runs = runs"
| "scan_runs limit ((run_name, FileNode) # rest) runs = scan_runs limit rest runs"
| "scan_runs limit ((run_name, DirNode meta_file results_file) # rest) runs =
     (if meta_file = NoFile then scan_runs limit rest runs
      else
        (case load_run run_name meta_file results_file of
           Inl e \<Rightarrow> scan_runs limit rest runs
         | Inr meta \<Rightarrow>
             (if int (length (runs @ [meta])) \<ge> limit then runs @ [meta]
              else scan_runs limit rest (runs @ [meta]))))"

definition get_recent_runs :: "runs_dir \<Rightarrow> int \<Rightarrow> py_error + dict list" where
  "get_recent_runs d limit =
     (case d of
        Missing \<Rightarrow> Inr []
      | NotADir \<Rightarrow> Inl NotADirectoryError
      | Dir es \<Rightarrow> Inr (scan_runs limit (sorted_reverse es) []))"

section \<open>dashboard.py: get\_dashboard\_stats\<close>

text \<open>\<open>sum(r.get("total_prompts", 0) for r in runs)\<close>: a run is a dict here, since
  \<open>get_recent_runs\<close> appends a run only after it has stored the run's id in it.\<close>

fun sum_total_prompts :: "pynum \<Rightarrow> dict list \<Rightarrow> py_error + pynum" where
  "sum_total_prompts acc [] = Inr acc"
| "sum_total_prompts acc (r # rs) =
     and_then (py_get (JObj r) ''total_prompts'' (JInt 0)) (\<lambda>v.
       case to_num v of
         None \<Rightarrow> Inl TypeError
       | Some n \<Rightarrow> sum_total_prompts (num_add acc n) rs)"

text \<open>
  \<open>[r["summary"][k] for r in runs if "summary" in r and r["summary"][k] is not None]\<close>
  when \<open>not_none\<close> is set (lines 160 and 161), and
  \<open>[r["summary"][k] for r in runs if "summary" in r]\<close> otherwise (line 162).
\<close>

fun summary_values :: "string \<Rightarrow> bool \<Rightarrow> dict list \<Rightarrow> py_error + json list" where
  "summary_values k not_none [] = Inr []"
| "summary_values k not_none (r # rs) =
     (case map_of r ''summary'' of
        None \<Rightarrow> summary_values k not_none rs
      | Some summary \<Rightarrow>
          and_then (py_getitem summary k) (\<lambda>v.
          and_then (summary_values k not_none rs) (\<lambda>vs.
          Inr (if not_none \<and> v = JNull then vs else v # vs))))"

text \<open>\<open>x > 0\<close>: an order between a number and \<open>0\<close>, \<open>TypeError\<close> for everything else.\<close>

definition py_positive :: "json \<Rightarrow> py_error + bool" where
  "py_positive v = (case to_num v of None \<Rightarrow> Inl TypeError | Some n \<Rightarrow> Inr (num_val n > 0))"

text \<open>The loop of lines 166 to 173, over \<open>runs[:5]\<close>.\<close>

fun recent_violations :: "dict list \<Rightarrow> py_error + json list" where
  "recent_violations [] = Inr []"
| "recent_violations (run # rest) =
     (case map_of run ''summary'' of
        None \<Rightarrow> recent_violations rest
      | Some summary \<Rightarrow>
          and_then (py_getitem summary ''blocked_count'') (\<lambda>bc.
          and_then (py_positive bc) (\<lambda>pos.
            if pos then
              and_then (py_getitem (JObj run) ''run_id'') (\<lambda>run_id.
              and_then (py_get (JObj run) ''start_time'' JNull) (\<lambda>start_time.
              and_then (py_getitem summary ''blocked_count'') (\<lambda>blocked_count.
              and_then (py_get (JObj run) ''total_prompts'' (JInt 0)) (\<lambda>total_prompts.
              and_then (recent_violations rest) (\<lambda>vs.
              Inr (JObj
                [(''run_id'', run_id),
                 (''timestamp'', start_time),
                 (''blocked_count'', blocked_count),
                 (''total_prompts'', total_prompts)] # vs))))))
            else recent_violations rest)))"

definition empty_stats :: json where
  "empty_stats = JObj
     [(''total_runs'', JInt 0),
      (''total_evaluations'', JInt 0),
      (''avg_accuracy'', JInt 0),
      (''avg_latency'', JInt 0),
      (''violation_rate'', JInt 0),
      (''recent_violations'', JArr [])]"

text \<open>Lines 147 to 182: the statistics of the runs that \<open>get_recent_runs\<close> returned.\<close>

definition dashboard_stats :: "dict list \<Rightarrow> py_error + json" where
  "dashboard_stats runs =
     (if runs = [] then Inr empty_stats
      else
        and_then (sum_total_prompts (PInt 0) runs) (\<lambda>total_evaluations.
        and_then (summary_values ''accuracy_rate'' True runs) (\<lambda>accuracies.
        and_then (summary_values ''avg_latency_ms'' True runs) (\<lambda>latencies.
        and_then (summary_values ''blocked_count'' False runs) (\<lambda>blocked_counts.
        and_then (recent_violations (take 5 runs)) (\<lambda>violations.
        and_then (mean_or (JInt 0) accuracies) (\<lambda>avg_accuracy.
        and_then (mean_or (JInt 0) latencies) (\<lambda>avg_latency.
        and_then
          (if num_val total_evaluations > 0
           then and_then (py_sum blocked_counts) (\<lambda>s.
                  Inr (JFloat (num_val s / num_val total_evaluations)))
           else Inr (JInt 0)) (\<lambda>violation_rate.
        Inr (JObj
          [(''total_runs'', JInt (int (length runs))),
           (''total_evaluations'', num_json total_evaluations),
           (''avg_accuracy'', avg_accuracy),
           (''avg_latency'', avg_latency),
           (''violation_rate'', violation_rate),
           (''recent_violations'', JArr violations)]))))))))))"

definition get_dashboard_stats :: "runs_dir \<Rightarrow> py_error + json" where
  "get_dashboard_stats d = and_then (get_recent_runs d 50) dashboard_stats"

section \<open>policy.py\<close>

record EvaluationPolicy =
  max_latency_ms :: int
  require_accuracy :: bool
  enable_toxicity :: bool
  toxicity_threshold :: rat
  enable_pii :: bool

text \<open>
  \<open>EvaluationPolicy\<close> is a pydantic model without strict mode, so each field is
  validated in pydantic's lax mode: a value of another type is converted when the
  conversion loses nothing. A float becomes an int only when it has no fractional part
  and lies strictly between \<open>-2^63\<close> and \<open>2^63\<close> (the conversion goes through a signed
  64-bit integer); an int becomes a float only when \<open>float(n)\<close> does not overflow, that
  is when its magnitude is below \<open>2^1024 - 2^970\<close>, the least value that rounds past the
  largest double. What pydantic accepts among strings (numerals for the number fields,
  words such as \<open>"true"\<close> or \<open>"off"\<close> for the boolean ones) is a parameter of the model.
\<close>

record str_coercion =
  str_to_int :: "string \<Rightarrow> int option"
  str_to_float :: "string \<Rightarrow> rat option"
  str_to_bool :: "string \<Rightarrow> bool option"

fun validate_int :: "str_coercion \<Rightarrow> json \<Rightarrow> int option" where
  "validate_int S (JInt n) = Some n"
| "validate_int S (JBool b) = Some (if b then 1 else 0)"
| "validate_int S (JFloat q) =
     (if q = of_int \<lfloor>q\<rfloor> \<and> - (2 ^ 63) < q \<and> q < 2 ^ 63 then Some \<lfloor>q\<rfloor> else None)"
| "validate_int S (JStr s) = str_to_int S s"
| "validate_int S JNull = None"
| "validate_int S (JArr xs) = None"
| "validate_int S (JObj kvs) = None"

fun validate_bool :: "str_coercion \<Rightarrow> json \<Rightarrow> bool option" where
  "validate_bool S (JBool b) = Some b"
| "validate_bool S (JInt n) = (if n = 0 then Some False else if n = 1 then Some True else None)"
| "validate_bool S (JFloat q) = (if q = 0 then Some False else if q = 1 then Some True else None)"
| "validate_bool S (JStr s) = str_to_bool S s"
| "validate_bool S JNull = None"
| "validate_bool S (JArr xs) = None"
| "validate_bool S (JObj kvs) = None"

fun validate_float :: "str_coercion \<Rightarrow> json \<Rightarrow> rat option" where
  "validate_float S (JFloat q) = Some q"
| "validate_float S (JInt n) =
     (if \<bar>n\<bar> < 2 ^ 1024 - 2 ^ 970 then Some (of_int n) else None)"
| "validate_float S (JBool b) = Some (if b then 1 else 0)"
| "validate_float S (JStr s) = str_to_float S s"
| "validate_float S JNull = None"
| "validate_float S (JArr xs) = None"
| "validate_float S (JObj kvs) = None"

text \<open>A field of the model: the default when the key is absent, else the validated value.\<close>

definition field :: "(json \<Rightarrow> 'a option) \<Rightarrow> dict \<Rightarrow> string \<Rightarrow> 'a \<Rightarrow> 'a option" where
  "field validate data k dflt = (case map_of data k of None \<Rightarrow> Some dflt | Some v \<Rightarrow> validate v)"

definition policy_fields :: "string list" where
  "policy_fields =
     [''max_latency_ms'', ''require_accuracy'', ''enable_toxicity'', ''toxicity_threshold'',
      ''enable_pii'']"

text \<open>
  \<open>EvaluationPolicy(**data)\<close> under \<open>extra = "forbid"\<close>: \<open>None\<close> stands for pydantic's
  \<open>ValidationError\<close>, raised when a key is not a field of the model or a value is not
  valid for its field.
\<close>

definition validate_policy :: "str_coercion \<Rightarrow> dict \<Rightarrow> EvaluationPolicy option" where
  "validate_policy S data =
     (if list_ex (\<lambda>k. k \<notin> set policy_fields) (map fst data) then None
      else
        case field (validate_int S) data ''max_latency_ms'' 2000 of None \<Rightarrow> None | Some a \<Rightarrow>
       (case field (validate_bool S) data ''require_accuracy'' True of None \<Rightarrow> None | Some b \<Rightarrow>
       (case field (validate_bool S) data ''enable_toxicity'' True of None \<Rightarrow> None | Some c \<Rightarrow>
       (case field (validate_float S) data ''toxicity_threshold'' (1/2) of None \<Rightarrow> None | Some d \<Rightarrow>
       (case field (validate_bool S) data ''enable_pii'' False of None \<Rightarrow> None | Some e \<Rightarrow>
          Some \<lparr>max_latency_ms = a, require_accuracy = b, enable_toxicity = c,
                toxicity_threshold = d, enable_pii = e\<rparr>)))))"

text \<open>
  \<open>load_policy\<close>: the file system is a function from a path to the state of the file
  there. \<open>**data\<close> raises \<open>TypeError\<close> when the decoded value is not a dict; like every
  exception other than \<open>JSONDecodeError\<close> it is re-raised as \<open>ValueError\<close>.
\<close>

definition load_policy :: "str_coercion \<Rightarrow> (string \<Rightarrow> json_file) \<Rightarrow> string \<Rightarrow> py_error + EvaluationPolicy" where
  "load_policy S fs policy_path =
     (case fs policy_path of
        NoFile \<Rightarrow> Inl FileNotFoundError
      | Unreadable \<Rightarrow> Inl ValueError_loading
      | InvalidJSON \<Rightarrow> Inl ValueError_invalid_json
      | Doc (JObj data) \<Rightarrow>
          (case validate_policy S data of
             None \<Rightarrow> Inl ValueError_loading
           | Some policy \<Rightarrow> Inr policy)
      | Doc other \<Rightarrow> Inl ValueError_loading)"

text \<open>\<open>policy_to_dict\<close>: \<open>model_dump()\<close> gives the fields in the order of their declaration.\<close>

definition policy_to_dict :: "EvaluationPolicy \<Rightarrow> dict" where
  "policy_to_dict policy =
     [(''max_latency_ms'', JInt (max_latency_ms policy)),
      (''require_accuracy'', JBool (require_accuracy policy)),
      (''enable_toxicity'', JBool (enable_toxicity policy)),
      (''toxicity_threshold'', JFloat (toxicity_threshold policy)),
      (''enable_pii'', JBool (enable_pii policy))]"

section \<open>providers.py: the probes of OllamaProvider\<close>

text \<open>
  The outcome of \<open>requests.get\<close>: the call raises a \<open>requests.RequestException\<close>
  (connection refused, timeout), or a response arrives with a status code and a body,
  which decodes as JSON or does not.
\<close>

datatype http_reply = RequestFailed | Response nat "json option"

text \<open>Iterating over a value: a list gives its elements, a dict its keys, a string its
  characters; nothing else is iterable.\<close>

fun py_iter :: "json \<Rightarrow> py_error + json list" where
  "py_iter (JArr xs) = Inr xs"
| "py_iter (JObj kvs) = Inr (map (\<lambda>kv. JStr (fst kv)) kvs)"
| "py_iter (JStr s) = Inr (map (\<lambda>c. JStr [c]) s)"
| "py_iter JNull = Inl TypeError"
| "py_iter (JBool b) = Inl TypeError"
| "py_iter (JInt n) = Inl TypeError"
| "py_iter (JFloat q) = Inl TypeError"

text \<open>\<open>model.get("name", "").split(":")[0]\<close>: only a string has \<open>split\<close>.\<close>

definition model_name :: "json \<Rightarrow> py_error + string" where
  "model_name model =
     and_then (py_get model ''name'' (JStr [])) (\<lambda>n.
       case n of
         JStr s \<Rightarrow> Inr (takeWhile (\<lambda>c. c \<noteq> CHR '':'') s)
       | other \<Rightarrow> Inl AttributeError)"

fun model_names :: "json list \<Rightarrow> string list \<Rightarrow> py_error + string list" where
  "model_names [] models = Inr models"
| "model_names (model # rest) models =
     and_then (model_name model) (\<lambda>n.
       model_names rest (if n \<noteq> [] then models @ [n] else models))"

text \<open>
  \<open>list_models\<close>: \<open>raise_for_status\<close> raises \<open>HTTPError\<close> for a status from 400 to 599
  and \<open>response.json()\<close> raises \<open>requests.JSONDecodeError\<close> for a body that is not
  JSON; both are \<open>RequestException\<close>s, which the handler turns into the empty list.
\<close>

definition list_models :: "http_reply \<Rightarrow> py_error + string list" where
  "list_models reply =
     (case reply of
        RequestFailed \<Rightarrow> Inr []
      | Response status body \<Rightarrow>
          if 400 \<le> status \<and> status < 600 then Inr []
          else
            (case body of
               None \<Rightarrow> Inr []
             | Some data \<Rightarrow>
                 and_then (py_get data ''models'' (JArr [])) (\<lambda>ms.
                 and_then (py_iter ms) (\<lambda>elems.
                 and_then (model_names elems []) (\<lambda>models.
                 Inr (sort models))))))"

definition is_available :: "http_reply \<Rightarrow> bool" where
  "is_available reply =
     (case reply of
        RequestFailed \<Rightarrow> False
      | Response status body \<Rightarrow> status = 200)"

section \<open>Notions of the specification\<close>

text \<open>
  An evaluation record as the data model describes it: a dict whose \<open>accuracy\<close> is a
  boolean or null, whose \<open>latency_ms\<close> and \<open>toxicity\<close> are numbers or null and whose
  \<open>blocked\<close> is a boolean; an absent key reads as null (as \<open>False\<close> for \<open>blocked\<close>).
\<close>

fun is_bool :: "json \<Rightarrow> bool" where
  "is_bool (JBool b) = True"
| "is_bool other = False"

fun is_null_or_bool :: "json \<Rightarrow> bool" where
  "is_null_or_bool JNull = True"
| "is_null_or_bool (JBool b) = True"
| "is_null_or_bool other = False"

fun is_null_or_number :: "json \<Rightarrow> bool" where
  "is_null_or_number JNull = True"
| "is_null_or_number (JInt n) = True"
| "is_null_or_number (JFloat q) = True"
| "is_null_or_number other = False"

fun is_count :: "json \<Rightarrow> bool" where
  "is_count (JInt n) = (0 \<le> n)"
| "is_count other = False"

definition absent_or :: "(json \<Rightarrow> bool) \<Rightarrow> dict \<Rightarrow> string \<Rightarrow> bool" where
  "absent_or P kvs k = (case map_of kvs k of None \<Rightarrow> True | Some v \<Rightarrow> P v)"

definition present_and :: "(json \<Rightarrow> bool) \<Rightarrow> dict \<Rightarrow> string \<Rightarrow> bool" where
  "present_and P kvs k = (case map_of kvs k of None \<Rightarrow> False | Some v \<Rightarrow> P v)"

fun evaluation_record :: "json \<Rightarrow> bool" where
  "evaluation_record (JObj kvs) =
     (absent_or is_null_or_bool kvs ''accuracy'' \<and>
      absent_or is_null_or_number kvs ''latency_ms'' \<and>
      absent_or is_bool kvs ''blocked'' \<and>
      absent_or is_null_or_number kvs ''toxicity'')"
| "evaluation_record other = False"

text \<open>The number a value stands for (\<open>True\<close> is 1, \<open>False\<close> is 0); nothing for null.\<close>

definition number_of :: "json \<Rightarrow> rat option" where
  "number_of v = map_option num_val (to_num v)"

text \<open>The non-null value of field \<open>k\<close> of a record, if it has one.\<close>

fun field_number :: "string \<Rightarrow> json \<Rightarrow> rat option" where
  "field_number k (JObj kvs) = (case map_of kvs k of None \<Rightarrow> None | Some v \<Rightarrow> number_of v)"
| "field_number k other = None"

definition non_null_values :: "string \<Rightarrow> json list \<Rightarrow> rat list" where
  "non_null_values k rs = List.map_filter (field_number k) rs"

definition arithmetic_mean :: "rat list \<Rightarrow> rat option" where
  "arithmetic_mean xs = (if xs = [] then None else Some (sum_list xs / of_nat (length xs)))"

definition float_or_null :: "rat option \<Rightarrow> json" where
  "float_or_null m = (case m of None \<Rightarrow> JNull | Some q \<Rightarrow> JFloat q)"

definition float_or_zero :: "rat option \<Rightarrow> json" where
  "float_or_zero m = (case m of None \<Rightarrow> JInt 0 | Some q \<Rightarrow> JFloat q)"

definition is_blocked :: "json \<Rightarrow> bool" where
  "is_blocked r = (case r of JObj kvs \<Rightarrow> map_of kvs ''blocked'' = Some (JBool True) | other \<Rightarrow> False)"

text \<open>
  A run as the fleet statistics expect it: \<open>total_prompts\<close>, when the metadata has it,
  is a count; the run has an id; and its summary, when it has one, carries an
  \<open>accuracy_rate\<close> and an \<open>avg_latency_ms\<close> that are numbers or null and a
  \<open>blocked_count\<close> that is a count.
\<close>

fun run_summary :: "json \<Rightarrow> bool" where
  "run_summary (JObj kvs) =
     (present_and is_null_or_number kvs ''accuracy_rate'' \<and>
      present_and is_null_or_number kvs ''avg_latency_ms'' \<and>
      present_and is_count kvs ''blocked_count'')"
| "run_summary other = False"

definition fleet_run :: "dict \<Rightarrow> bool" where
  "fleet_run r =
     (absent_or is_count r ''total_prompts'' \<and>
      present_and (\<lambda>v. True) r ''run_id'' \<and>
      absent_or run_summary r ''summary'')"

text \<open>The per-run quantities the fleet statistics are defined from.\<close>

definition run_total_prompts :: "dict \<Rightarrow> int" where
  "run_total_prompts r = (case map_of r ''total_prompts'' of Some (JInt n) \<Rightarrow> n | other \<Rightarrow> 0)"

definition run_blocked_count :: "dict \<Rightarrow> int" where
  "run_blocked_count r =
     (case map_of r ''summary'' of
        Some (JObj kvs) \<Rightarrow> (case map_of kvs ''blocked_count'' of Some (JInt n) \<Rightarrow> n | other \<Rightarrow> 0)
      | other \<Rightarrow> 0)"

definition run_summary_number :: "string \<Rightarrow> dict \<Rightarrow> rat option" where
  "run_summary_number k r =
     (case map_of r ''summary'' of None \<Rightarrow> None | Some summary \<Rightarrow> field_number k summary)"

definition total_evaluation_count :: "dict list \<Rightarrow> int" where
  "total_evaluation_count runs = sum_list (map run_total_prompts runs)"

definition total_blocked_count :: "dict list \<Rightarrow> int" where
  "total_blocked_count runs = sum_list (map run_blocked_count runs)"

definition cross_run_mean :: "string \<Rightarrow> dict list \<Rightarrow> rat option" where
  "cross_run_mean k runs = arithmetic_mean (List.map_filter (run_summary_number k) runs)"

text \<open>What the scan of the runs directory makes of one entry: the run it lists for it, if any.\<close>

fun listed_run :: "string \<times> node \<Rightarrow> dict option" where
  "listed_run (run_name, FileNode) = None"
| "listed_run (run_name, DirNode meta_file results_file) =
     (if meta_file = NoFile then None
      else case load_run run_name meta_file results_file of
             Inl e \<Rightarrow> None
           | Inr run \<Rightarrow> Some run)"

text \<open>
  A run directory whose metadata fits the data model: \<open>total_prompts\<close>, when present,
  is a count, and a summary written into \<open>meta.json\<close> itself, which is passed on when
  there is no results file, has the shape of a summary. Entries that the scan skips are
  not constrained.
\<close>

fun clean_entry :: "string \<times> node \<Rightarrow> bool" where
  "clean_entry (run_name, DirNode (Doc (JObj meta)) results_file) =
     (absent_or is_count meta ''total_prompts'' \<and>
      (results_file \<noteq> NoResults \<or> absent_or run_summary meta ''summary''))"
| "clean_entry other = True"

text \<open>
  The policy schema of the specification, as a table: each field with its type and
  its default.
\<close>

datatype field_type = IntField | BoolField | FloatField

definition policy_schema :: "(string \<times> field_type \<times> json) list" where
  "policy_schema =
     [(''max_latency_ms'', IntField, JInt 2000),
      (''require_accuracy'', BoolField, JBool True),
      (''enable_toxicity'', BoolField, JBool True),
      (''toxicity_threshold'', FloatField, JFloat (1/2)),
      (''enable_pii'', BoolField, JBool False)]"

text \<open>
  The values a field of a given type refuses. Null, a list and an object are refused
  everywhere. An integer field takes every integer and boolean, and a float that is a
  whole number strictly between \<open>-2^63\<close> and \<open>2^63\<close>. A boolean field takes a boolean and
  the numbers 0 and 1. A float field takes every float and boolean, and an integer of
  magnitude below \<open>2^1024 - 2^970\<close>. A string is refused when the coercion of strings
  has no value for it.
\<close>

fun refused :: "str_coercion \<Rightarrow> field_type \<Rightarrow> json \<Rightarrow> bool" where
  "refused S t JNull = True"
| "refused S t (JArr xs) = True"
| "refused S t (JObj kvs) = True"
| "refused S IntField (JInt n) = False"
| "refused S IntField (JBool b) = False"
| "refused S IntField (JFloat q) = (q \<notin> \<int> \<or> q \<le> - (2 ^ 63) \<or> 2 ^ 63 \<le> q)"
| "refused S IntField (JStr s) = (str_to_int S s = None)"
| "refused S BoolField (JBool b) = False"
| "refused S BoolField (JInt n) = (n \<noteq> 0 \<and> n \<noteq> 1)"
| "refused S BoolField (JFloat q) = (q \<noteq> 0 \<and> q \<noteq> 1)"
| "refused S BoolField (JStr s) = (str_to_bool S s = None)"
| "refused S FloatField (JFloat q) = False"
| "refused S FloatField (JBool b) = False"
| "refused S FloatField (JInt n) = (n \<le> - (2 ^ 1024 - 2 ^ 970) \<or> 2 ^ 1024 - 2 ^ 970 \<le> n)"
| "refused S FloatField (JStr s) = (str_to_float S s = None)"

text \<open>The value of the field's type that an accepted value is converted to.\<close>

fun converted :: "str_coercion \<Rightarrow> field_type \<Rightarrow> json \<Rightarrow> json" where
  "converted S IntField (JInt n) = JInt n"
| "converted S IntField (JBool b) = JInt (if b then 1 else 0)"
| "converted S IntField (JFloat q) = JInt \<lfloor>q\<rfloor>"
| "converted S IntField (JStr s) = (case str_to_int S s of None \<Rightarrow> JNull | Some n \<Rightarrow> JInt n)"
| "converted S BoolField (JBool b) = JBool b"
| "converted S BoolField (JInt n) = JBool (n = 1)"
| "converted S BoolField (JFloat q) = JBool (q = 1)"
| "converted S BoolField (JStr s) = (case str_to_bool S s of None \<Rightarrow> JNull | Some b \<Rightarrow> JBool b)"
| "converted S FloatField (JFloat q) = JFloat q"
| "converted S FloatField (JBool b) = JFloat (if b then 1 else 0)"
| "converted S FloatField (JInt n) = JFloat (of_int n)"
| "converted S FloatField (JStr s) = (case str_to_float S s of None \<Rightarrow> JNull | Some q \<Rightarrow> JFloat q)"
| "converted S t other = JNull"

text \<open>
  The ways a policy file can be defective: it is missing, cannot be read, is not JSON,
  is not a JSON object, has a key that the schema does not have, or gives a field of
  the schema a value that the field's type refuses.
\<close>

definition unknown_key :: "dict \<Rightarrow> bool" where
  "unknown_key data = list_ex (\<lambda>k. map_of policy_schema k = None) (map fst data)"

definition refused_value :: "str_coercion \<Rightarrow> dict \<Rightarrow> bool" where
  "refused_value S data =
     list_ex (\<lambda>entry. case map_of data (fst entry) of
                         None \<Rightarrow> False
                       | Some v \<Rightarrow> refused S (fst (snd entry)) v) policy_schema"

fun defective :: "str_coercion \<Rightarrow> json_file \<Rightarrow> bool" where
  "defective S NoFile = True"
| "defective S Unreadable = True"
| "defective S InvalidJSON = True"
| "defective S (Doc (JObj data)) = (unknown_key data \<or> refused_value S data)"
| "defective S (Doc other) = True"

text \<open>The fields of the policy that a file without defect gives: for each field of the
  schema the converted value of its key, or the default when the key is absent.\<close>

definition expected_fields :: "str_coercion \<Rightarrow> dict \<Rightarrow> dict" where
  "expected_fields S data =
     map (\<lambda>entry. (fst entry,
            case map_of data (fst entry) of
              None \<Rightarrow> snd (snd entry)
            | Some v \<Rightarrow> converted S (fst (snd entry)) v)) policy_schema"

text \<open>The JSON type a field of the policy is declared with.\<close>

fun declared_type :: "string \<Rightarrow> json \<Rightarrow> bool" where
  "declared_type k (JBool b) = (k \<in> {''require_accuracy'', ''enable_toxicity'', ''enable_pii''})"
| "declared_type k (JInt n) = (k \<in> {''max_latency_ms'', ''toxicity_threshold''})"
| "declared_type k (JFloat q) = (k = ''toxicity_threshold'')"
| "declared_type k other = False"

text \<open>A string coercion that accepts no string, for examples whose values are not strings.\<close>

definition no_strings :: str_coercion where
  "no_strings = \<lparr>str_to_int = (\<lambda>s. None), str_to_float = (\<lambda>s. None), str_to_bool = (\<lambda>s. None)\<rparr>"

text \<open>A small file system for the examples: a valid policy, a policy with a misspelt
  key, one with a list for a boolean, a file that is not JSON, and nothing elsewhere.\<close>

definition example_files :: "string \<Rightarrow> json_file" where
  "example_files path =
     (if path = ''policy.json''
        then Doc (JObj [(''max_latency_ms'', JInt 1500), (''enable_pii'', JBool True)])
      else if path = ''extra.json'' then Doc (JObj [(''max_latency'', JInt 1500)])
      else if path = ''typed.json'' then Doc (JObj [(''enable_pii'', JArr [])])
      else if path = ''broken.json'' then InvalidJSON
      else NoFile)"

text \<open>Policy files whose values are not of the declared type: numbers that convert, a
  float beyond the 64-bit range, a float with a fraction, and a boolean given as 2.\<close>

definition coercion_files :: "string \<Rightarrow> json_file" where
  "coercion_files path =
     (if path = ''converts.json''
        then Doc (JObj [(''max_latency_ms'', JFloat 2000), (''toxicity_threshold'', JInt 1),
                        (''enable_pii'', JInt 1)])
      else if path = ''huge.json'' then Doc (JObj [(''max_latency_ms'', JFloat (10 ^ 19))])
      else if path = ''fraction.json'' then Doc (JObj [(''max_latency_ms'', JFloat (3001/2))])
      else if path = ''two.json'' then Doc (JObj [(''enable_pii'', JInt 2)])
      else NoFile)"

text \<open>A run whose summary is a dict that lacks the key \<open>k\<close>.\<close>

definition summary_lacks :: "string \<Rightarrow> dict \<Rightarrow> bool" where
  "summary_lacks k r =
     (case map_of r ''summary'' of
        Some (JObj kvs) \<Rightarrow> map_of kvs k = None
      | other \<Rightarrow> False)"

text \<open>A runs directory with one run whose \<open>meta.json\<close> carries a summary of its own,
  without the key \<open>accuracy_rate\<close>, and which has no results file.\<close>

definition partial_summary_dir :: runs_dir where
  "partial_summary_dir = Dir
     [(''20240101-000000'',
       DirNode (Doc (JObj [(''total_prompts'', JInt 3),
                           (''summary'', JObj [(''blocked_count'', JInt 1)])])) NoResults)]"

section \<open>Sequencing and sums\<close>

lemma and_then_Inr [simp]: "and_then (Inr x) f = f x"
  by (simp add: and_then_def)

lemma and_then_Inl [simp]: "and_then (Inl e) f = Inl e"
  by (simp add: and_then_def)

lemma num_val_add: "num_val (num_add a b) = num_val a + num_val b"
  by (cases a; cases b) simp_all

lemma sum_from_numbers:
  "list_all (\<lambda>v. to_num v \<noteq> None) vs \<Longrightarrow>
   \<exists>n. sum_from acc vs = Inr n \<and>
       num_val n = num_val acc + sum_list (map (\<lambda>v. the (number_of v)) vs)"
proof (induction vs arbitrary: acc)
  case Nil
  then show ?case by simp
next
  case (Cons v vs)
  from Cons.prems obtain m where m: "to_num v = Some m" and rest: "list_all (\<lambda>v. to_num v \<noteq> None) vs"
    by auto
  from Cons.IH [OF rest, of "num_add acc m"] obtain n where
    "sum_from (num_add acc m) vs = Inr n"
    "num_val n = num_val (num_add acc m) + sum_list (map (\<lambda>v. the (number_of v)) vs)"
    by blast
  with m show ?case
    by (simp add: num_val_add number_of_def)
qed

lemma mean_or_numbers:
  assumes "list_all (\<lambda>v. to_num v \<noteq> None) vs"
  shows "mean_or d vs =
         Inr (case arithmetic_mean (map (\<lambda>v. the (number_of v)) vs) of None \<Rightarrow> d | Some q \<Rightarrow> JFloat q)"
proof (cases "vs = []")
  case True
  then show ?thesis by (simp add: mean_or_def arithmetic_mean_def)
next
  case False
  from sum_from_numbers [OF assms, of "PInt 0"] obtain n where
    "py_sum vs = Inr n" "num_val n = sum_list (map (\<lambda>v. the (number_of v)) vs)"
    by (auto simp: py_sum_def)
  with False show ?thesis
    by (simp add: mean_or_def arithmetic_mean_def)
qed

lemma present_values_fields:
  assumes "list_all (\<lambda>r. \<exists>kvs. r = JObj kvs \<and>
              (case map_of kvs k of None \<Rightarrow> True | Some v \<Rightarrow> v = JNull \<or> to_num v \<noteq> None)) rs"
  shows "\<exists>vs. present_values k d rs = Inr vs \<and> list_all (\<lambda>v. to_num v \<noteq> None) vs \<and>
              map (\<lambda>v. the (number_of v)) vs = non_null_values k rs"
  using assms
proof (induction rs)
  case Nil
  then show ?case by (simp add: non_null_values_def map_filter_simps)
next
  case (Cons r rs)
  from Cons.prems obtain kvs where r: "r = JObj kvs"
    and f: "case map_of kvs k of None \<Rightarrow> True | Some v \<Rightarrow> v = JNull \<or> to_num v \<noteq> None"
    and rest: "list_all (\<lambda>r. \<exists>kvs. r = JObj kvs \<and>
              (case map_of kvs k of None \<Rightarrow> True | Some v \<Rightarrow> v = JNull \<or> to_num v \<noteq> None)) rs"
    by auto
  from Cons.IH [OF rest] obtain vs where vs: "present_values k d rs = Inr vs"
    "list_all (\<lambda>v. to_num v \<noteq> None) vs" "map (\<lambda>v. the (number_of v)) vs = non_null_values k rs"
    by blast
  show ?case
  proof (cases "map_of kvs k")
    case None
    with r vs show ?thesis
      by (simp add: non_null_values_def map_filter_simps)
  next
    case (Some v)
    show ?thesis
    proof (cases "v = JNull")
      case True
      with Some r vs show ?thesis
        by (simp add: non_null_values_def map_filter_simps number_of_def)
    next
      case False
      with Some f obtain m where "to_num v = Some m" by auto
      with False Some r vs show ?thesis
        by (simp add: non_null_values_def map_filter_simps number_of_def)
    qed
  qed
qed


section \<open>The summary of a run\<close>

lemma evaluation_record_field:
  assumes "list_all evaluation_record rs"
    and "k \<in> {''accuracy'', ''latency_ms'', ''toxicity''}"
  shows "list_all (\<lambda>r. \<exists>kvs. r = JObj kvs \<and>
              (case map_of kvs k of None \<Rightarrow> True | Some v \<Rightarrow> v = JNull \<or> to_num v \<noteq> None)) rs"
proof -
  have bool: "is_null_or_bool v \<Longrightarrow> v = JNull \<or> to_num v \<noteq> None" for v
    by (cases v) simp_all
  have num: "is_null_or_number v \<Longrightarrow> v = JNull \<or> to_num v \<noteq> None" for v
    by (cases v) simp_all
  have "\<exists>kvs. r = JObj kvs \<and>
          (case map_of kvs k of None \<Rightarrow> True | Some v \<Rightarrow> v = JNull \<or> to_num v \<noteq> None)"
    if "evaluation_record r" for r
  proof (cases r)
    case (JObj kvs)
    with that assms(2) show ?thesis
      by (auto simp: absent_or_def split: option.splits dest: bool num)
  qed (use that in simp_all)
  with assms(1) show ?thesis
    by (simp add: list_all_iff)
qed

lemma field_mean:
  assumes "list_all evaluation_record rs"
    and "k \<in> {''accuracy'', ''latency_ms'', ''toxicity''}"
  shows "and_then (present_values k d rs) (\<lambda>vs. and_then (mean_or JNull vs) f) =
         f (float_or_null (arithmetic_mean (non_null_values k rs)))"
proof -
  from present_values_fields [OF evaluation_record_field [OF assms], of d]
  obtain vs where vs: "present_values k d rs = Inr vs" "list_all (\<lambda>v. to_num v \<noteq> None) vs"
    "map (\<lambda>v. the (number_of v)) vs = non_null_values k rs"
    by blast
  from mean_or_numbers [OF vs(2), of JNull] vs(1,3) show ?thesis
    by (simp add: float_or_null_def)
qed

lemma count_blocked_records:
  "list_all evaluation_record rs \<Longrightarrow> count_blocked rs = Inr (length (filter is_blocked rs))"
proof (induction rs)
  case Nil
  then show ?case by simp
next
  case (Cons r rs)
  then obtain kvs where r: "r = JObj kvs" and b: "absent_or is_bool kvs ''blocked''"
    by (cases r) auto
  have "truthy (case map_of kvs ''blocked'' of None \<Rightarrow> JBool False | Some v \<Rightarrow> v) =
        (map_of kvs ''blocked'' = Some (JBool True))"
  proof (cases "map_of kvs ''blocked''")
    case None
    then show ?thesis by simp
  next
    case (Some v)
    with b show ?thesis by (cases v) (simp_all add: absent_or_def)
  qed
  with Cons r show ?case
    by (simp add: is_blocked_def)
qed

lemma summary_of_records:
  assumes "list_all evaluation_record rs"
  shows "calculate_run_summary rs = Inr (JObj
          [(''total_prompts'', JInt (int (length rs))),
           (''accuracy_rate'', float_or_null (arithmetic_mean (non_null_values ''accuracy'' rs))),
           (''avg_latency_ms'', float_or_null (arithmetic_mean (non_null_values ''latency_ms'' rs))),
           (''blocked_count'', JInt (int (length (filter is_blocked rs)))),
           (''avg_toxicity'', float_or_null (arithmetic_mean (non_null_values ''toxicity'' rs)))])"
proof (cases "rs = []")
  case True
  then show ?thesis
    by (simp add: calculate_run_summary_def empty_summary_def non_null_values_def
        map_filter_simps arithmetic_mean_def float_or_null_def)
next
  case False
  then show ?thesis
    unfolding calculate_run_summary_def
    by (simp add: field_mean [OF assms] count_blocked_records [OF assms])
qed



text \<open>
  Claim C2. For every non-empty sequence of evaluation records the summary's
  \<open>total_prompts\<close> is the number of records and its \<open>blocked_count\<close> is the number of
  records whose \<open>blocked\<close> field is true.
\<close>

theorem summary_counts:
  assumes "list_all evaluation_record rs" and "rs \<noteq> []"
  shows "\<exists>s. calculate_run_summary rs = Inr s \<and>
           py_getitem s ''total_prompts'' = Inr (JInt (int (length rs))) \<and>
           py_getitem s ''blocked_count'' = Inr (JInt (int (length (filter is_blocked rs))))"
  by (simp add: summary_of_records [OF assms(1)])

theorem summary_counts_witness:
  "list_all evaluation_record
     [JObj [(''blocked'', JBool True)], JObj [(''blocked'', JBool False)], JObj [],
      JObj [(''accuracy'', JBool True), (''blocked'', JBool True)]] \<and>
   [JObj [(''blocked'', JBool True)], JObj [(''blocked'', JBool False)], JObj [],
      JObj [(''accuracy'', JBool True), (''blocked'', JBool True)]] \<noteq> [] \<and>
   (\<exists>s. calculate_run_summary
          [JObj [(''blocked'', JBool True)], JObj [(''blocked'', JBool False)], JObj [],
           JObj [(''accuracy'', JBool True), (''blocked'', JBool True)]] = Inr s \<and>
        py_getitem s ''total_prompts'' = Inr (JInt 4) \<and>
        py_getitem s ''blocked_count'' = Inr (JInt 2))"
proof -
  have h: "list_all evaluation_record
     [JObj [(''blocked'', JBool True)], JObj [(''blocked'', JBool False)], JObj [],
      JObj [(''accuracy'', JBool True), (''blocked'', JBool True)]]"
    by (simp add: absent_or_def)
  from summary_counts [OF h] h show ?thesis
    by (simp add: is_blocked_def)
qed

text \<open>
  Claim C3. The summary of the empty sequence of records is returned, not raised, and
  is exactly the dict with \<open>total_prompts\<close> 0, \<open>blocked_count\<close> 0 and the three means
  null.
\<close>

theorem summary_of_no_records:
  "calculate_run_summary [] = Inr (JObj
     [(''total_prompts'', JInt 0),
      (''accuracy_rate'', JNull),
      (''avg_latency_ms'', JNull),
      (''blocked_count'', JInt 0),
      (''avg_toxicity'', JNull)])"
  by (simp add: calculate_run_summary_def empty_summary_def)

section \<open>The scan of the runs directory\<close>

lemma scan_runs_take:
  "int (length runs) < limit \<Longrightarrow>
   scan_runs limit es runs = take (nat limit) (runs @ List.map_filter listed_run es)"
proof (induction limit es runs rule: scan_runs.induct)
  case (1 limit runs)
  then show ?case by (simp add: map_filter_simps)
next
  case (2 limit run_name rest runs)
  then show ?case by (simp add: map_filter_simps)
next
  case (3 limit run_name meta_file results_file rest runs)
  show ?case
  proof (cases "listed_run (run_name, DirNode meta_file results_file)")
    case None
    with 3 show ?thesis
      by (auto simp: map_filter_simps split: if_splits sum.splits)
  next
    case (Some run)
    then have m: "meta_file \<noteq> NoFile"
      and l: "load_run run_name meta_file results_file = Inr run"
      by (auto split: if_splits sum.splits)
    show ?thesis
    proof (cases "limit \<le> int (length (runs @ [run]))")
      case True
      with "3.prems" have "nat limit = length (runs @ [run])" by simp
      with True m l Some show ?thesis
        by (simp add: map_filter_simps)
    next
      case False
      then have "int (length (runs @ [run])) < limit" by simp
      with "3.IH"(3) [OF m l] False have
        "scan_runs limit rest (runs @ [run]) =
         take (nat limit) ((runs @ [run]) @ List.map_filter listed_run rest)"
        by simp
      with False m l Some show ?thesis
        by (simp add: map_filter_simps)
    qed
  qed
qed

lemma set_sorted_reverse: "set (sorted_reverse es) = set es"
  by (simp add: sorted_reverse_def)

lemma length_sorted_reverse: "length (sorted_reverse es) = length es"
  by (simp add: sorted_reverse_def)

lemma sorted_reverse_descending: "sorted (rev (map fst (sorted_reverse es)))"
  by (simp add: sorted_reverse_def rev_map [symmetric])



lemma recent_runs_positive_limit:
  assumes "0 < limit"
  shows "get_recent_runs (Dir es) limit =
         Inr (take (nat limit) (List.map_filter listed_run (sorted_reverse es)))"
  using scan_runs_take [of "[]" limit "sorted_reverse es"] assms
  by (simp add: get_recent_runs_def)

lemma recent_runs_at_most_limit:
  assumes "0 < limit" and "get_recent_runs d limit = Inr runs"
  shows "int (length runs) \<le> limit"
proof (cases d)
  case (Dir es)
  with assms recent_runs_positive_limit [OF assms(1), of es] show ?thesis by auto
qed (use assms in \<open>auto simp: get_recent_runs_def\<close>)

text \<open>
  The scenario of the specification: three run directories, one of them without
  \<open>meta.json\<close>, give two runs, the newer one first.
\<close>

lemma recent_runs_scenario:
  "get_recent_runs (Dir
     [(''20240102-000000'', DirNode NoFile NoResults),
      (''20240101-000000'', DirNode (Doc (JObj [(''model'', JStr ''a'')])) NoResults),
      (''20240103-000000'', DirNode (Doc (JObj [(''model'', JStr ''b'')])) (Lines []))]) 10
   = Inr [[(''model'', JStr ''b''), (''summary'', empty_summary), (''run_id'', JStr ''20240103-000000'')],
          [(''model'', JStr ''a''), (''run_id'', JStr ''20240101-000000'')]]"
  by (simp add: get_recent_runs_def sorted_reverse_def load_run_def calculate_run_summary_def
      less_eq_char_def less_char_def)

lemma listed_run_id:
  assumes "listed_run entry = Some run"
  shows "map_of run ''run_id'' = Some (JStr (fst entry))"
proof (cases entry)
  case (Pair run_name nd)
  show ?thesis
  proof (cases nd)
    case FileNode
    with Pair assms show ?thesis by simp
  next
    case (DirNode meta_file results_file)
    with Pair assms have "load_run run_name meta_file results_file = Inr run"
      by (auto split: if_splits sum.splits)
    then obtain m where "py_setitem m ''run_id'' (JStr run_name) = Inr run"
      by (cases meta_file) (auto simp: load_run_def and_then_def split: sum.splits)
    then have "map_of run ''run_id'' = Some (JStr run_name)"
      by (cases m) (auto simp: update_conv')
    with Pair show ?thesis by simp
  qed
qed

lemma listed_run_ids:
  "map (\<lambda>run. map_of run ''run_id'') (List.map_filter listed_run es) =
   map (\<lambda>entry. Some (JStr (fst entry))) (filter (\<lambda>entry. listed_run entry \<noteq> None) es)"
  by (induction es) (auto simp: listed_run_id)

text \<open>
  Claim C9. For a positive limit, as every call of the scan passes one (10 and 50), the
  scan returns the first \<open>limit\<close> listed runs of the directory entries taken by
  descending name: the ids of the runs returned are the names of the entries that give
  a run, in that order. An entry without \<open>meta.json\<close> gives no run and does not end the
  scan, and at most \<open>limit\<close> runs are returned. The example is the scenario of the
  specification: three run directories, one of them without \<open>meta.json\<close>, give two
  runs, the newer one first.
\<close>

theorem recent_runs_listing:
  assumes "0 < limit"
  shows "\<exists>runs. get_recent_runs (Dir es) limit = Inr runs \<and>
           runs = take (nat limit) (List.map_filter listed_run (sorted_reverse es)) \<and>
           map (\<lambda>run. map_of run ''run_id'') runs =
             take (nat limit)
               (map (\<lambda>entry. Some (JStr (fst entry)))
                  (filter (\<lambda>entry. listed_run entry \<noteq> None) (sorted_reverse es))) \<and>
           sorted (rev (map fst (sorted_reverse es))) \<and>
           set (sorted_reverse es) = set es \<and>
           length (sorted_reverse es) = length es \<and>
           (\<forall>run_name results_file. listed_run (run_name, DirNode NoFile results_file) = None) \<and>
           int (length runs) \<le> limit"
proof -
  let ?runs = "take (nat limit) (List.map_filter listed_run (sorted_reverse es))"
  have "get_recent_runs (Dir es) limit = Inr ?runs"
    by (rule recent_runs_positive_limit [OF assms])
  moreover have "map (\<lambda>run. map_of run ''run_id'') ?runs =
      take (nat limit)
        (map (\<lambda>entry. Some (JStr (fst entry)))
           (filter (\<lambda>entry. listed_run entry \<noteq> None) (sorted_reverse es)))"
    unfolding take_map [symmetric] listed_run_ids by (rule refl)
  moreover have "int (length ?runs) \<le> limit"
    using assms by simp
  ultimately show ?thesis
    by (simp add: sorted_reverse_descending set_sorted_reverse length_sorted_reverse)
qed

theorem recent_runs_listing_witness:
  "(0::int) < 10 \<and>
   get_recent_runs (Dir
     [(''20240102-000000'', DirNode NoFile NoResults),
      (''20240101-000000'', DirNode (Doc (JObj [(''model'', JStr ''a'')])) NoResults),
      (''20240103-000000'', DirNode (Doc (JObj [(''model'', JStr ''b'')])) (Lines []))]) 10 =
   Inr [[(''model'', JStr ''b''), (''summary'', empty_summary),
         (''run_id'', JStr ''20240103-000000'')],
        [(''model'', JStr ''a''), (''run_id'', JStr ''20240101-000000'')]] \<and>
   sorted_reverse
     [(''20240102-000000'', DirNode NoFile NoResults),
      (''20240101-000000'', DirNode (Doc (JObj [(''model'', JStr ''a'')])) NoResults),
      (''20240103-000000'', DirNode (Doc (JObj [(''model'', JStr ''b'')])) (Lines []))] =
     [(''20240103-000000'', DirNode (Doc (JObj [(''model'', JStr ''b'')])) (Lines [])),
      (''20240102-000000'', DirNode NoFile NoResults),
      (''20240101-000000'', DirNode (Doc (JObj [(''model'', JStr ''a'')])) NoResults)] \<and>
   listed_run (''20240102-000000'', DirNode NoFile NoResults) = None"
proof -
  let ?es = "[(''20240102-000000'', DirNode NoFile NoResults),
      (''20240101-000000'', DirNode (Doc (JObj [(''model'', JStr ''a'')])) NoResults),
      (''20240103-000000'', DirNode (Doc (JObj [(''model'', JStr ''b'')])) (Lines []))]"
  have h: "(0::int) < 10" by simp
  have s: "sorted_reverse ?es =
     [(''20240103-000000'', DirNode (Doc (JObj [(''model'', JStr ''b'')])) (Lines [])),
      (''20240102-000000'', DirNode NoFile NoResults),
      (''20240101-000000'', DirNode (Doc (JObj [(''model'', JStr ''a'')])) NoResults)]"
    by (simp add: sorted_reverse_def less_eq_char_def less_char_def)
  from recent_runs_listing [OF h, of ?es] have
    "get_recent_runs (Dir ?es) 10 =
     Inr (take (nat 10) (List.map_filter listed_run (sorted_reverse ?es)))"
    by blast
  then have "get_recent_runs (Dir ?es) 10 =
     Inr [[(''model'', JStr ''b''), (''summary'', empty_summary),
           (''run_id'', JStr ''20240103-000000'')],
          [(''model'', JStr ''a''), (''run_id'', JStr ''20240101-000000'')]]"
    unfolding s by (simp add: load_run_def calculate_run_summary_def)
  with h s show ?thesis by simp
qed

section \<open>Runs without a results file\<close>





section \<open>The fleet statistics\<close>

lemma sum_total_prompts_fleet:
  "list_all fleet_run runs \<Longrightarrow>
   sum_total_prompts (PInt a) runs = Inr (PInt (a + total_evaluation_count runs))"
proof (induction runs arbitrary: a)
  case Nil
  then show ?case by (simp add: total_evaluation_count_def)
next
  case (Cons r runs)
  then have fr: "fleet_run r" and rest: "list_all fleet_run runs"
    by simp_all
  from fr have c: "absent_or is_count r ''total_prompts''"
    by (simp add: fleet_run_def)
  show ?case
  proof (cases "map_of r ''total_prompts''")
    case None
    with Cons.IH [OF rest, of a] show ?thesis
      by (simp add: total_evaluation_count_def run_total_prompts_def)
  next
    case (Some v)
    with c obtain n where "v = JInt n" by (cases v) (simp_all add: absent_or_def)
    with Some Cons.IH [OF rest, of "a + n"] show ?thesis
      by (simp add: total_evaluation_count_def run_total_prompts_def add.assoc)
  qed
qed

lemma total_evaluation_count_nonneg:
  "list_all fleet_run runs \<Longrightarrow> 0 \<le> total_evaluation_count runs"
proof (induction runs)
  case Nil
  then show ?case by (simp add: total_evaluation_count_def)
next
  case (Cons r runs)
  then have fr: "fleet_run r" and rest: "0 \<le> total_evaluation_count runs"
    by simp_all
  from fr have c: "absent_or is_count r ''total_prompts''"
    by (simp add: fleet_run_def)
  have "0 \<le> run_total_prompts r"
  proof (cases "map_of r ''total_prompts''")
    case None
    then show ?thesis by (simp add: run_total_prompts_def)
  next
    case (Some v)
    with c show ?thesis by (cases v) (simp_all add: absent_or_def run_total_prompts_def)
  qed
  with rest show ?case by (simp add: total_evaluation_count_def)
qed

lemma summary_values_means:
  assumes "list_all fleet_run runs" and "k \<in> {''accuracy_rate'', ''avg_latency_ms''}"
  shows "\<exists>vs. summary_values k True runs = Inr vs \<and> list_all (\<lambda>v. to_num v \<noteq> None) vs \<and>
              map (\<lambda>v. the (number_of v)) vs = List.map_filter (run_summary_number k) runs"
  using assms(1)
proof (induction runs)
  case Nil
  then show ?case by simp
next
  case (Cons r runs)
  then obtain vs where vs: "summary_values k True runs = Inr vs"
    "list_all (\<lambda>v. to_num v \<noteq> None) vs"
    "map (\<lambda>v. the (number_of v)) vs = List.map_filter (run_summary_number k) runs"
    by auto
  from Cons.prems have fr: "fleet_run r" by simp
  then have s: "absent_or run_summary r ''summary''"
    by (simp add: fleet_run_def)
  show ?case
  proof (cases "map_of r ''summary''")
    case None
    then have "run_summary_number k r = None" by (simp add: run_summary_number_def)
    with None vs show ?thesis by simp
  next
    case (Some summary)
    with s obtain kvs where kvs: "summary = JObj kvs" and p: "present_and is_null_or_number kvs k"
      using assms(2) by (cases summary) (auto simp: absent_or_def)
    from p obtain v where v: "map_of kvs k = Some v" "is_null_or_number v"
      by (auto simp: present_and_def split: option.splits)
    from Some kvs v(1) have n: "run_summary_number k r = number_of v"
      by (simp add: run_summary_number_def)
    from v(2) show ?thesis
      using vs Some kvs v(1) n
      by (cases v) (simp_all add: number_of_def)
  qed
qed

lemma summary_values_blocked:
  assumes "list_all fleet_run runs"
  shows "\<exists>vs. summary_values ''blocked_count'' False runs = Inr vs \<and>
              list_all (\<lambda>v. to_num v \<noteq> None) vs \<and>
              sum_list (map (\<lambda>v. the (number_of v)) vs) = of_int (total_blocked_count runs)"
  using assms
proof (induction runs)
  case Nil
  then show ?case by (simp add: total_blocked_count_def)
next
  case (Cons r runs)
  then obtain vs where vs: "summary_values ''blocked_count'' False runs = Inr vs"
    "list_all (\<lambda>v. to_num v \<noteq> None) vs"
    "sum_list (map (\<lambda>v. the (number_of v)) vs) = of_int (total_blocked_count runs)"
    by auto
  from Cons.prems have fr: "fleet_run r" by simp
  then have s: "absent_or run_summary r ''summary''"
    by (simp add: fleet_run_def)
  show ?case
  proof (cases "map_of r ''summary''")
    case None
    then have "run_blocked_count r = 0" by (simp add: run_blocked_count_def)
    with None vs show ?thesis by (simp add: total_blocked_count_def)
  next
    case (Some summary)
    with s obtain kvs where kvs: "summary = JObj kvs" and p: "present_and is_count kvs ''blocked_count''"
      by (cases summary) (auto simp: absent_or_def)
    from p obtain v where v: "map_of kvs ''blocked_count'' = Some v" "is_count v"
      by (auto simp: present_and_def split: option.splits)
    from v(2) show ?thesis
      using vs Some kvs v(1)
      by (cases v) (simp_all add: total_blocked_count_def run_blocked_count_def number_of_def)
  qed
qed

lemma recent_violations_fleet:
  "list_all fleet_run runs \<Longrightarrow> \<exists>vs. recent_violations runs = Inr vs"
proof (induction runs)
  case Nil
  then show ?case by simp
next
  case (Cons r runs)
  then obtain vs where vs: "recent_violations runs = Inr vs" by auto
  from Cons.prems have fr: "fleet_run r" by simp
  then have s: "absent_or run_summary r ''summary''"
    and i: "present_and (\<lambda>v. True) r ''run_id''"
    by (simp_all add: fleet_run_def)
  show ?case
  proof (cases "map_of r ''summary''")
    case None
    with vs show ?thesis by simp
  next
    case (Some summary)
    with s obtain kvs where kvs: "summary = JObj kvs" and p: "present_and is_count kvs ''blocked_count''"
      by (cases summary) (auto simp: absent_or_def)
    from p obtain v where v: "map_of kvs ''blocked_count'' = Some v" "is_count v"
      by (auto simp: present_and_def split: option.splits)
    from i obtain rid where rid: "map_of r ''run_id'' = Some rid"
      by (auto simp: present_and_def split: option.splits)
    from v(2) show ?thesis
      using vs Some kvs v(1) rid
      by (cases v) (simp_all add: py_positive_def)
  qed
qed


lemma list_all_take: "list_all P xs \<Longrightarrow> list_all P (take n xs)"
  by (auto simp: list_all_iff dest: in_set_takeD)

lemma stats_of_fleet:
  assumes "list_all fleet_run runs"
  shows "\<exists>violations. dashboard_stats runs = Inr (JObj
          [(''total_runs'', JInt (int (length runs))),
           (''total_evaluations'', JInt (total_evaluation_count runs)),
           (''avg_accuracy'', float_or_zero (cross_run_mean ''accuracy_rate'' runs)),
           (''avg_latency'', float_or_zero (cross_run_mean ''avg_latency_ms'' runs)),
           (''violation_rate'',
              if total_evaluation_count runs = 0 then JInt 0
              else JFloat (of_int (total_blocked_count runs) / of_int (total_evaluation_count runs))),
           (''recent_violations'', JArr violations)])"
proof (cases "runs = []")
  case True
  then show ?thesis
    by (simp add: dashboard_stats_def empty_stats_def total_evaluation_count_def
        cross_run_mean_def arithmetic_mean_def float_or_zero_def)
next
  case False
  have total: "sum_total_prompts (PInt 0) runs = Inr (PInt (total_evaluation_count runs))"
    using sum_total_prompts_fleet [OF assms, of 0] by simp
  from summary_values_means [OF assms, of "''accuracy_rate''"] obtain accs where
    accs: "summary_values ''accuracy_rate'' True runs = Inr accs"
      "list_all (\<lambda>v. to_num v \<noteq> None) accs"
      "map (\<lambda>v. the (number_of v)) accs = List.map_filter (run_summary_number ''accuracy_rate'') runs"
    by auto
  from summary_values_means [OF assms, of "''avg_latency_ms''"] obtain lats where
    lats: "summary_values ''avg_latency_ms'' True runs = Inr lats"
      "list_all (\<lambda>v. to_num v \<noteq> None) lats"
      "map (\<lambda>v. the (number_of v)) lats = List.map_filter (run_summary_number ''avg_latency_ms'') runs"
    by auto
  from summary_values_blocked [OF assms] obtain bcs where
    bcs: "summary_values ''blocked_count'' False runs = Inr bcs"
      "list_all (\<lambda>v. to_num v \<noteq> None) bcs"
      "sum_list (map (\<lambda>v. the (number_of v)) bcs) = of_int (total_blocked_count runs)"
    by auto
  from recent_violations_fleet [OF list_all_take [OF assms, of 5]] obtain violations where
    viol: "recent_violations (take 5 runs) = Inr violations"
    by auto
  have acc: "mean_or (JInt 0) accs = Inr (float_or_zero (cross_run_mean ''accuracy_rate'' runs))"
    using mean_or_numbers [OF accs(2), of "JInt 0"] accs(3)
    by (simp add: cross_run_mean_def float_or_zero_def)
  have lat: "mean_or (JInt 0) lats = Inr (float_or_zero (cross_run_mean ''avg_latency_ms'' runs))"
    using mean_or_numbers [OF lats(2), of "JInt 0"] lats(3)
    by (simp add: cross_run_mean_def float_or_zero_def)
  from sum_from_numbers [OF bcs(2), of "PInt 0"] bcs(3) obtain n where
    n: "py_sum bcs = Inr n" "num_val n = of_int (total_blocked_count runs)"
    by (auto simp: py_sum_def)
  have pos: "(0 < total_evaluation_count runs) = (total_evaluation_count runs \<noteq> 0)"
    using total_evaluation_count_nonneg [OF assms] by auto
  show ?thesis
    unfolding dashboard_stats_def
    using False by (simp add: total accs(1) lats(1) bcs(1) viol acc lat n pos)
qed

text \<open>
  Claim C4. For every list of runs the statistics are computed, \<open>total_evaluations\<close> is
  the sum of the runs' \<open>total_prompts\<close>, and \<open>violation_rate\<close> is the sum of the runs'
  \<open>blocked_count\<close> divided by that total; when the total is 0 the rate is 0 and nothing
  is raised.
\<close>

theorem fleet_violation_rate:
  assumes "list_all fleet_run runs"
  shows "\<exists>stats. dashboard_stats runs = Inr stats \<and>
           py_getitem stats ''total_evaluations'' = Inr (JInt (total_evaluation_count runs)) \<and>
           py_getitem stats ''violation_rate'' =
             Inr (if total_evaluation_count runs = 0 then JInt 0
                  else JFloat (of_int (total_blocked_count runs) /
                               of_int (total_evaluation_count runs)))"
proof -
  from stats_of_fleet [OF assms] obtain violations where
    "dashboard_stats runs = Inr (JObj
          [(''total_runs'', JInt (int (length runs))),
           (''total_evaluations'', JInt (total_evaluation_count runs)),
           (''avg_accuracy'', float_or_zero (cross_run_mean ''accuracy_rate'' runs)),
           (''avg_latency'', float_or_zero (cross_run_mean ''avg_latency_ms'' runs)),
           (''violation_rate'',
              if total_evaluation_count runs = 0 then JInt 0
              else JFloat (of_int (total_blocked_count runs) / of_int (total_evaluation_count runs))),
           (''recent_violations'', JArr violations)])"
    by blast
  then show ?thesis by simp
qed

theorem fleet_violation_rate_witness:
  "list_all fleet_run
     [[(''total_prompts'', JInt 4), (''run_id'', JStr ''20240102-000000''),
       (''summary'', JObj [(''total_prompts'', JInt 4), (''accuracy_rate'', JFloat (1/2)),
          (''avg_latency_ms'', JNull), (''blocked_count'', JInt 1), (''avg_toxicity'', JNull)])],
      [(''total_prompts'', JInt 6), (''run_id'', JStr ''20240101-000000'')]] \<and>
   (\<exists>stats. dashboard_stats
     [[(''total_prompts'', JInt 4), (''run_id'', JStr ''20240102-000000''),
       (''summary'', JObj [(''total_prompts'', JInt 4), (''accuracy_rate'', JFloat (1/2)),
          (''avg_latency_ms'', JNull), (''blocked_count'', JInt 1), (''avg_toxicity'', JNull)])],
      [(''total_prompts'', JInt 6), (''run_id'', JStr ''20240101-000000'')]] = Inr stats \<and>
     py_getitem stats ''total_evaluations'' = Inr (JInt 10) \<and>
     py_getitem stats ''violation_rate'' = Inr (JFloat (1/10))) \<and>
   list_all fleet_run [[(''run_id'', JStr ''20240101-000000'')]] \<and>
   (\<exists>stats. dashboard_stats [[(''run_id'', JStr ''20240101-000000'')]] = Inr stats \<and>
     py_getitem stats ''total_evaluations'' = Inr (JInt 0) \<and>
     py_getitem stats ''violation_rate'' = Inr (JInt 0))"
proof -
  let ?runs = "[[(''total_prompts'', JInt 4), (''run_id'', JStr ''20240102-000000''),
       (''summary'', JObj [(''total_prompts'', JInt 4), (''accuracy_rate'', JFloat (1/2)),
          (''avg_latency_ms'', JNull), (''blocked_count'', JInt 1), (''avg_toxicity'', JNull)])],
      [(''total_prompts'', JInt 6), (''run_id'', JStr ''20240101-000000'')]]"
  have h1: "list_all fleet_run ?runs"
    by (simp add: fleet_run_def absent_or_def present_and_def)
  have h2: "list_all fleet_run [[(''run_id'', JStr ''20240101-000000'')]]"
    by (simp add: fleet_run_def absent_or_def present_and_def)
  have t1: "total_evaluation_count ?runs = 10" "total_blocked_count ?runs = 1"
    by (simp_all add: total_evaluation_count_def total_blocked_count_def
        run_total_prompts_def run_blocked_count_def)
  have t2: "total_evaluation_count [[(''run_id'', JStr ''20240101-000000'')]] = 0"
    by (simp add: total_evaluation_count_def run_total_prompts_def)
  from fleet_violation_rate [OF h1] fleet_violation_rate [OF h2] h1 h2 show ?thesis
    unfolding t1 t2 by simp
qed

lemma summary_values_lacking:
  "list_ex (summary_lacks k) runs \<Longrightarrow> \<exists>e. summary_values k not_none runs = Inl e"
proof (induction runs)
  case Nil
  then show ?case by simp
next
  case (Cons r runs)
  show ?case
  proof (cases "summary_lacks k r")
    case True
    then obtain kvs where "map_of r ''summary'' = Some (JObj kvs)" "map_of kvs k = None"
      by (auto simp: summary_lacks_def split: option.splits json.splits)
    then show ?thesis by simp
  next
    case False
    with Cons obtain e where e: "summary_values k not_none runs = Inl e" by auto
    show ?thesis
    proof (cases "map_of r ''summary''")
      case None
      with e show ?thesis by simp
    next
      case (Some summary)
      with e show ?thesis
        by (cases "py_getitem summary k") simp_all
    qed
  qed
qed

lemma dashboard_stats_lacking:
  assumes "list_ex (summary_lacks k) runs"
    and "k \<in> {''accuracy_rate'', ''avg_latency_ms'', ''blocked_count''}"
  shows "isl (dashboard_stats runs)"
proof -
  from assms(1) have ne: "runs \<noteq> []" by auto
  from assms(2) consider "k = ''accuracy_rate''" | "k = ''avg_latency_ms''" | "k = ''blocked_count''"
    by auto
  then show ?thesis
  proof cases
    case 1
    with summary_values_lacking [OF assms(1), of True] obtain e where
      "summary_values ''accuracy_rate'' True runs = Inl e" by auto
    with ne show ?thesis
      by (cases "sum_total_prompts (PInt 0) runs") (simp_all add: dashboard_stats_def)
  next
    case 2
    with summary_values_lacking [OF assms(1), of True] obtain e where
      "summary_values ''avg_latency_ms'' True runs = Inl e" by auto
    with ne show ?thesis
      by (cases "sum_total_prompts (PInt 0) runs";
          cases "summary_values ''accuracy_rate'' True runs")
         (simp_all add: dashboard_stats_def)
  next
    case 3
    with summary_values_lacking [OF assms(1), of False] obtain e where
      "summary_values ''blocked_count'' False runs = Inl e" by auto
    with ne show ?thesis
      by (cases "sum_total_prompts (PInt 0) runs";
          cases "summary_values ''accuracy_rate'' True runs";
          cases "summary_values ''avg_latency_ms'' True runs")
         (simp_all add: dashboard_stats_def)
  qed
qed

text \<open>
  Claim C5, as amended. For runs whose summary, when they have one, carries its keys,
  \<open>avg_accuracy\<close> and \<open>avg_latency\<close> are the means over the runs that have a summary whose
  \<open>accuracy_rate\<close> (\<open>avg_latency_ms\<close>) is not null: a run without a summary or with a null
  value counts neither in the sum nor in the number of values, and the result is 0 only
  when no run has a value; in the violation rate a run without a summary counts with a
  \<open>blocked_count\<close> of 0. A summary that lacks one of the keys \<open>accuracy_rate\<close>,
  \<open>avg_latency_ms\<close> and \<open>blocked_count\<close> is neither left out nor given a default: the
  statistics raise.
\<close>

theorem fleet_means:
  "(list_all fleet_run runs \<longrightarrow>
      (\<exists>stats. dashboard_stats runs = Inr stats \<and>
         py_getitem stats ''avg_accuracy'' =
           Inr (float_or_zero (cross_run_mean ''accuracy_rate'' runs)) \<and>
         py_getitem stats ''avg_latency'' =
           Inr (float_or_zero (cross_run_mean ''avg_latency_ms'' runs)) \<and>
         py_getitem stats ''violation_rate'' =
           Inr (if sum_list (map run_total_prompts runs) = 0 then JInt 0
                else JFloat (of_int (sum_list (map run_blocked_count runs)) /
                             of_int (sum_list (map run_total_prompts runs)))))) \<and>
   (list_ex (summary_lacks k) runs \<and>
    k \<in> {''accuracy_rate'', ''avg_latency_ms'', ''blocked_count''} \<longrightarrow>
      isl (dashboard_stats runs))"
proof (intro conjI impI)
  assume f: "list_all fleet_run runs"
  from stats_of_fleet [OF f] obtain violations where
    "dashboard_stats runs = Inr (JObj
          [(''total_runs'', JInt (int (length runs))),
           (''total_evaluations'', JInt (total_evaluation_count runs)),
           (''avg_accuracy'', float_or_zero (cross_run_mean ''accuracy_rate'' runs)),
           (''avg_latency'', float_or_zero (cross_run_mean ''avg_latency_ms'' runs)),
           (''violation_rate'',
              if total_evaluation_count runs = 0 then JInt 0
              else JFloat (of_int (total_blocked_count runs) / of_int (total_evaluation_count runs))),
           (''recent_violations'', JArr violations)])"
    by blast
  then show "\<exists>stats. dashboard_stats runs = Inr stats \<and>
         py_getitem stats ''avg_accuracy'' =
           Inr (float_or_zero (cross_run_mean ''accuracy_rate'' runs)) \<and>
         py_getitem stats ''avg_latency'' =
           Inr (float_or_zero (cross_run_mean ''avg_latency_ms'' runs)) \<and>
         py_getitem stats ''violation_rate'' =
           Inr (if sum_list (map run_total_prompts runs) = 0 then JInt 0
                else JFloat (of_int (sum_list (map run_blocked_count runs)) /
                             of_int (sum_list (map run_total_prompts runs))))"
    by (simp add: total_evaluation_count_def total_blocked_count_def)
next
  assume "list_ex (summary_lacks k) runs \<and>
    k \<in> {''accuracy_rate'', ''avg_latency_ms'', ''blocked_count''}"
  then show "isl (dashboard_stats runs)"
    using dashboard_stats_lacking by blast
qed

theorem fleet_means_witness:
  "list_all fleet_run
     [[(''total_prompts'', JInt 4), (''run_id'', JStr ''20240103-000000''),
       (''summary'', JObj [(''total_prompts'', JInt 4), (''accuracy_rate'', JFloat (1/2)),
          (''avg_latency_ms'', JNull), (''blocked_count'', JInt 1), (''avg_toxicity'', JNull)])],
      [(''total_prompts'', JInt 6), (''run_id'', JStr ''20240102-000000'')],
      [(''total_prompts'', JInt 2), (''run_id'', JStr ''20240101-000000''),
       (''summary'', JObj [(''total_prompts'', JInt 2), (''accuracy_rate'', JFloat 1),
          (''avg_latency_ms'', JFloat 100), (''blocked_count'', JInt 2), (''avg_toxicity'', JNull)])]] \<and>
   (\<exists>stats. dashboard_stats
     [[(''total_prompts'', JInt 4), (''run_id'', JStr ''20240103-000000''),
       (''summary'', JObj [(''total_prompts'', JInt 4), (''accuracy_rate'', JFloat (1/2)),
          (''avg_latency_ms'', JNull), (''blocked_count'', JInt 1), (''avg_toxicity'', JNull)])],
      [(''total_prompts'', JInt 6), (''run_id'', JStr ''20240102-000000'')],
      [(''total_prompts'', JInt 2), (''run_id'', JStr ''20240101-000000''),
       (''summary'', JObj [(''total_prompts'', JInt 2), (''accuracy_rate'', JFloat 1),
          (''avg_latency_ms'', JFloat 100), (''blocked_count'', JInt 2), (''avg_toxicity'', JNull)])]]
       = Inr stats \<and>
     py_getitem stats ''avg_accuracy'' = Inr (JFloat (3/4)) \<and>
     py_getitem stats ''avg_latency'' = Inr (JFloat 100) \<and>
     py_getitem stats ''violation_rate'' = Inr (JFloat (1/4))) \<and>
   list_ex (summary_lacks ''avg_latency_ms'')
     [[(''total_prompts'', JInt 6), (''run_id'', JStr ''20240102-000000'')],
      [(''total_prompts'', JInt 3), (''run_id'', JStr ''20240101-000000''),
       (''summary'', JObj [(''accuracy_rate'', JFloat 1), (''blocked_count'', JInt 1)])]] \<and>
   ''avg_latency_ms'' \<in> {''accuracy_rate'', ''avg_latency_ms'', ''blocked_count''} \<and>
   isl (dashboard_stats
     [[(''total_prompts'', JInt 6), (''run_id'', JStr ''20240102-000000'')],
      [(''total_prompts'', JInt 3), (''run_id'', JStr ''20240101-000000''),
       (''summary'', JObj [(''accuracy_rate'', JFloat 1), (''blocked_count'', JInt 1)])]])"
proof -
  let ?runs = "[[(''total_prompts'', JInt 4), (''run_id'', JStr ''20240103-000000''),
       (''summary'', JObj [(''total_prompts'', JInt 4), (''accuracy_rate'', JFloat (1/2)),
          (''avg_latency_ms'', JNull), (''blocked_count'', JInt 1), (''avg_toxicity'', JNull)])],
      [(''total_prompts'', JInt 6), (''run_id'', JStr ''20240102-000000'')],
      [(''total_prompts'', JInt 2), (''run_id'', JStr ''20240101-000000''),
       (''summary'', JObj [(''total_prompts'', JInt 2), (''accuracy_rate'', JFloat 1),
          (''avg_latency_ms'', JFloat 100), (''blocked_count'', JInt 2), (''avg_toxicity'', JNull)])]]"
  let ?partial = "[[(''total_prompts'', JInt 6), (''run_id'', JStr ''20240102-000000'')],
      [(''total_prompts'', JInt 3), (''run_id'', JStr ''20240101-000000''),
       (''summary'', JObj [(''accuracy_rate'', JFloat 1), (''blocked_count'', JInt 1)])]]"
  have h: "list_all fleet_run ?runs"
    by (simp add: fleet_run_def absent_or_def present_and_def)
  have m: "cross_run_mean ''accuracy_rate'' ?runs = Some (3/4)"
    "cross_run_mean ''avg_latency_ms'' ?runs = Some 100"
    by (simp_all add: cross_run_mean_def run_summary_number_def number_of_def arithmetic_mean_def)
  have t: "sum_list (map run_total_prompts ?runs) = 12" "sum_list (map run_blocked_count ?runs) = 3"
    by (simp_all add: run_total_prompts_def run_blocked_count_def)
  have l: "list_ex (summary_lacks ''avg_latency_ms'') ?partial"
    by (simp add: summary_lacks_def)
  have k: "''avg_latency_ms'' \<in> {''accuracy_rate'', ''avg_latency_ms'', ''blocked_count''}"
    by simp
  from fleet_means [of ?runs "''avg_latency_ms''"] h
  have first: "\<exists>stats. dashboard_stats ?runs = Inr stats \<and>
     py_getitem stats ''avg_accuracy'' = Inr (JFloat (3/4)) \<and>
     py_getitem stats ''avg_latency'' = Inr (JFloat 100) \<and>
     py_getitem stats ''violation_rate'' = Inr (JFloat (1/4))"
    unfolding m t by (simp add: float_or_zero_def)
  from fleet_means [of ?partial "''avg_latency_ms''"] l k
  have second: "isl (dashboard_stats ?partial)" by blast
  from h first l k second show ?thesis by blast
qed

text \<open>
  Claim C5 as stated does not hold where a summary field is missing from a summary
  that is there. A run directory whose \<open>meta.json\<close> has a summary of its own without
  \<open>accuracy_rate\<close>, and which has no results file, is listed with that summary, and the
  statistics raise \<open>KeyError\<close> instead of leaving the run out of the mean; a summary
  without \<open>blocked_count\<close> raises too instead of counting as 0.
\<close>

theorem partial_summary_raises:
  "get_recent_runs partial_summary_dir 50 =
     Inr [[(''total_prompts'', JInt 3), (''summary'', JObj [(''blocked_count'', JInt 1)]),
           (''run_id'', JStr ''20240101-000000'')]] \<and>
   get_dashboard_stats partial_summary_dir = Inl KeyError \<and>
   dashboard_stats
     [[(''total_prompts'', JInt 3), (''run_id'', JStr ''20240101-000000''),
       (''summary'', JObj [(''accuracy_rate'', JNull), (''avg_latency_ms'', JNull)])]] =
     Inl KeyError"
  by (simp add: get_dashboard_stats_def get_recent_runs_def partial_summary_dir_def
      sorted_reverse_def load_run_def dashboard_stats_def)

section \<open>The runs of a directory are fit for the fleet statistics\<close>

lemma and_then_eq_Inr: "(and_then m f = Inr y) = (\<exists>x. m = Inr x \<and> f x = Inr y)"
  by (cases m) simp_all

lemma mean_or_null_shape: "mean_or JNull xs = Inr v \<Longrightarrow> is_null_or_number v"
  by (auto simp: mean_or_def and_then_eq_Inr split: if_splits)

lemma summary_shape:
  assumes "calculate_run_summary rs = Inr s"
  shows "run_summary s"
proof (cases "rs = []")
  case True
  with assms show ?thesis
    by (auto simp: calculate_run_summary_def empty_summary_def present_and_def)
next
  case False
  with assms have "\<exists>a l b t n x. mean_or JNull a = Inr l \<and> mean_or JNull b = Inr t \<and>
        s = JObj
          [(''total_prompts'', JInt (int (length rs))),
           (''accuracy_rate'', l),
           (''avg_latency_ms'', t),
           (''blocked_count'', JInt (int n)),
           (''avg_toxicity'', x)]"
    by (simp add: calculate_run_summary_def and_then_eq_Inr) blast
  then obtain a l b t n x where
    "mean_or JNull a = Inr l" "mean_or JNull b = Inr t"
    and s: "s = JObj
          [(''total_prompts'', JInt (int (length rs))),
           (''accuracy_rate'', l),
           (''avg_latency_ms'', t),
           (''blocked_count'', JInt (int n)),
           (''avg_toxicity'', x)]"
    by blast
  then have "is_null_or_number l" "is_null_or_number t"
    by (auto dest: mean_or_null_shape)
  with s show ?thesis
    by (auto simp: present_and_def)
qed

lemma map_of_update_other: "k \<noteq> k' \<Longrightarrow> map_of (AList.update k v al) k' = map_of al k'"
  by (simp add: update_conv')

lemma loaded_run_is_fleet_run:
  assumes "clean_entry (run_name, DirNode meta_file results_file)"
    and "load_run run_name meta_file results_file = Inr run"
  shows "fleet_run run"
proof -
  from assms(2) obtain m where mf: "meta_file = Doc (JObj m)"
    by (cases meta_file; cases "calculate_run_summary (load_results results_file)")
       (auto simp: load_run_def and_then_eq_Inr split: if_splits json.splits elim: py_setitem.elims)
  from assms(1) mf have tp: "absent_or is_count m ''total_prompts''"
    and sm: "results_file \<noteq> NoResults \<or> absent_or run_summary m ''summary''"
    by simp_all
  show ?thesis
  proof (cases "results_file = NoResults")
    case True
    with assms(2) mf have "run = AList.update ''run_id'' (JStr run_name) m"
      by (simp add: load_run_def)
    with tp sm True show ?thesis
      by (simp add: fleet_run_def absent_or_def present_and_def update_conv')
  next
    case False
    with assms(2) mf obtain s where s: "calculate_run_summary (load_results results_file) = Inr s"
      and run: "run = AList.update ''run_id'' (JStr run_name) (AList.update ''summary'' s m)"
      by (auto simp: load_run_def and_then_eq_Inr)
    from summary_shape [OF s] tp show ?thesis
      by (simp add: run fleet_run_def absent_or_def present_and_def update_conv')
  qed
qed

lemma scan_runs_fleet:
  "list_all clean_entry es \<Longrightarrow> list_all fleet_run runs \<Longrightarrow>
   list_all fleet_run (scan_runs limit es runs)"
proof (induction limit es runs rule: scan_runs.induct)
  case (1 limit runs)
  then show ?case by simp
next
  case (2 limit run_name rest runs)
  then show ?case by simp
next
  case (3 limit run_name meta_file results_file rest runs)
  from "3.prems" have c: "clean_entry (run_name, DirNode meta_file results_file)"
    and rest: "list_all clean_entry rest"
    by simp_all
  show ?case
  proof (cases "meta_file = NoFile")
    case True
    with 3 rest show ?thesis by simp
  next
    case False
    show ?thesis
    proof (cases "load_run run_name meta_file results_file")
      case (Inl e)
      with False "3.IH"(2) rest "3.prems"(2) show ?thesis by simp
    next
      case (Inr run)
      from loaded_run_is_fleet_run [OF c Inr] "3.prems"(2)
      have all: "list_all fleet_run (runs @ [run])" by simp
      show ?thesis
      proof (cases "limit \<le> int (length (runs @ [run]))")
        case True
        with False Inr all show ?thesis by simp
      next
        case nb: False
        with "3.IH"(3) [OF False Inr _ rest all] False Inr show ?thesis by simp
      qed
    qed
  qed
qed

lemma recent_runs_are_fleet_runs:
  assumes "list_all clean_entry es" and "get_recent_runs (Dir es) limit = Inr runs"
  shows "list_all fleet_run runs"
proof -
  have "list_all clean_entry (sorted_reverse es)"
    using assms(1) by (simp add: list_all_iff sorted_reverse_def)
  from scan_runs_fleet [OF this, of "[]" limit] assms(2) show ?thesis
    by (simp add: get_recent_runs_def)
qed

lemma dashboard_stats_total:
  assumes "list_all clean_entry es"
  shows "\<exists>runs stats. get_recent_runs (Dir es) 50 = Inr runs \<and> list_all fleet_run runs \<and>
           get_dashboard_stats (Dir es) = Inr stats \<and> dashboard_stats runs = Inr stats"
proof -
  obtain runs where runs: "get_recent_runs (Dir es) 50 = Inr runs"
    by (simp add: get_recent_runs_def)
  from recent_runs_are_fleet_runs [OF assms runs] have f: "list_all fleet_run runs" .
  from stats_of_fleet [OF f] obtain stats where "dashboard_stats runs = Inr stats" by blast
  with runs f show ?thesis
    by (simp add: get_dashboard_stats_def)
qed

section \<open>Loading a policy\<close>

text \<open>The validation of each field type refuses exactly the values of the table, and
  converts the others as the table says.\<close>

lemma validate_int_refused: "(validate_int S v = None) = refused S IntField v"
  by (cases v) (auto simp: Ints_def)

lemma validate_bool_refused: "(validate_bool S v = None) = refused S BoolField v"
  by (cases v) auto

lemma validate_float_refused: "(validate_float S v = None) = refused S FloatField v"
  by (cases v) auto

lemma validate_int_converted: "validate_int S v = Some n \<Longrightarrow> converted S IntField v = JInt n"
  by (cases v) (auto split: if_splits)

lemma validate_bool_converted: "validate_bool S v = Some b \<Longrightarrow> converted S BoolField v = JBool b"
  by (cases v) (auto split: if_splits)

lemma validate_float_converted: "validate_float S v = Some q \<Longrightarrow> converted S FloatField v = JFloat q"
  by (cases v) (auto split: if_splits)

lemma unknown_key_fields:
  "unknown_key data = list_ex (\<lambda>k. k \<notin> set policy_fields) (map fst data)"
proof -
  have "(map_of policy_schema k = None) = (k \<notin> set policy_fields)" for k
    by (simp add: policy_schema_def policy_fields_def)
  then show ?thesis by (simp add: unknown_key_def)
qed

lemma refused_value_fields:
  "refused_value S data =
     (field (validate_int S) data ''max_latency_ms'' 2000 = None \<or>
      field (validate_bool S) data ''require_accuracy'' True = None \<or>
      field (validate_bool S) data ''enable_toxicity'' True = None \<or>
      field (validate_float S) data ''toxicity_threshold'' (1/2) = None \<or>
      field (validate_bool S) data ''enable_pii'' False = None)"
  by (simp add: refused_value_def policy_schema_def field_def validate_int_refused
      validate_bool_refused validate_float_refused split: option.splits)

lemma validate_policy_None:
  "(validate_policy S data = None) = (unknown_key data \<or> refused_value S data)"
  unfolding unknown_key_fields refused_value_fields
  by (auto simp: validate_policy_def split: option.splits)

lemma field_converted:
  assumes "field validate data k dflt = Some x"
    and "\<And>v. validate v = Some x \<Longrightarrow> converted S t v = inject x"
  shows "(case map_of data k of None \<Rightarrow> inject dflt | Some v \<Rightarrow> converted S t v) = inject x"
  using assms by (auto simp: field_def split: option.splits)

lemma validate_policy_Some:
  assumes "validate_policy S data = Some policy"
  shows "policy_to_dict policy = expected_fields S data"
proof -
  from assms obtain a b c d e where
    f: "field (validate_int S) data ''max_latency_ms'' 2000 = Some a"
       "field (validate_bool S) data ''require_accuracy'' True = Some b"
       "field (validate_bool S) data ''enable_toxicity'' True = Some c"
       "field (validate_float S) data ''toxicity_threshold'' (1/2) = Some d"
       "field (validate_bool S) data ''enable_pii'' False = Some e"
    and p: "policy = \<lparr>max_latency_ms = a, require_accuracy = b, enable_toxicity = c,
                   toxicity_threshold = d, enable_pii = e\<rparr>"
    by (auto simp: validate_policy_def split: if_splits option.splits)
  note c = field_converted [OF f(1), of S IntField JInt, OF validate_int_converted]
    field_converted [OF f(2), of S BoolField JBool, OF validate_bool_converted]
    field_converted [OF f(3), of S BoolField JBool, OF validate_bool_converted]
    field_converted [OF f(4), of S FloatField JFloat, OF validate_float_converted]
    field_converted [OF f(5), of S BoolField JBool, OF validate_bool_converted]
  show ?thesis
    by (simp add: p policy_to_dict_def expected_fields_def policy_schema_def c
        cong: option.case_cong)
qed

lemma load_policy_fails_iff: "isl (load_policy S fs p) = defective S (fs p)"
proof (cases "fs p")
  case (Doc j)
  show ?thesis
  proof (cases j)
    case (JObj data)
    show ?thesis
    proof (cases "validate_policy S data")
      case None
      with Doc JObj validate_policy_None [of S data] show ?thesis
        by (simp add: load_policy_def)
    next
      case (Some policy)
      with Doc JObj validate_policy_None [of S data] show ?thesis
        by (simp add: load_policy_def)
    qed
  qed (use Doc in \<open>simp_all add: load_policy_def\<close>)
qed (simp_all add: load_policy_def)

text \<open>
  Claim C6, as amended. Loading a policy file is all or nothing. It fails whenever the
  file is missing, cannot be read, is not JSON, does not hold a JSON object, has a key
  that is no field of the schema, or gives a field a value that the field's type
  refuses: null, a list or an object for any field; for \<open>max_latency_ms\<close> a float with a
  fraction or outside the open interval from \<open>-2^63\<close> to \<open>2^63\<close>; for a boolean field a
  number other than 0 and 1; for \<open>toxicity_threshold\<close> an integer too large for a
  float. In every other case it returns a policy whose fields are exactly the five of
  the schema, each the converted value of its key, or its default when the key is
  absent. The examples are a missing file, a file that is not JSON, a misspelt key, a
  list for a boolean, the float \<open>1e19\<close>, the float 1500.5 and the number 2 for a
  boolean, which all fail, and a file with 2000.0, 1 and 1 for an integer, a float and
  a boolean field, which loads as 2000, 1.0 and true.
\<close>

theorem load_policy_all_or_nothing:
  "(defective S (fs p) \<longrightarrow> isl (load_policy S fs p)) \<and>
   (\<not> defective S (fs p) \<longrightarrow>
      (\<exists>data policy.
         fs p = Doc (JObj data) \<and>
         load_policy S fs p = Inr policy \<and>
         policy_to_dict policy = expected_fields S data))"
proof (intro conjI impI)
  assume "defective S (fs p)"
  then show "isl (load_policy S fs p)" by (simp add: load_policy_fails_iff)
next
  assume nd: "\<not> defective S (fs p)"
  then obtain data where data: "fs p = Doc (JObj data)"
    by (cases "(S, fs p)" rule: defective.cases) auto
  from nd have "\<not> isl (load_policy S fs p)" by (simp add: load_policy_fails_iff)
  then obtain policy where l: "load_policy S fs p = Inr policy"
    by (cases "load_policy S fs p") auto
  with data have "validate_policy S data = Some policy"
    by (simp add: load_policy_def split: option.splits)
  from validate_policy_Some [OF this] data l
  show "\<exists>data policy. fs p = Doc (JObj data) \<and> load_policy S fs p = Inr policy \<and>
          policy_to_dict policy = expected_fields S data"
    by blast
qed

lemma fraction_not_whole: "(3001/2 :: rat) \<notin> \<int>"
proof
  assume "(3001/2 :: rat) \<in> \<int>"
  then obtain z :: int where "(3001/2 :: rat) = of_int z"
    by (auto elim: Ints_cases)
  then have "(of_int 3001 :: rat) = of_int (2 * z)" by simp
  then have "3001 = 2 * z" by (simp only: of_int_eq_iff)
  then show False by presburger
qed

theorem load_policy_all_or_nothing_witness:
  "defective no_strings (example_files ''missing.json'') \<and>
   isl (load_policy no_strings example_files ''missing.json'') \<and>
   defective no_strings (example_files ''broken.json'') \<and>
   isl (load_policy no_strings example_files ''broken.json'') \<and>
   defective no_strings (example_files ''extra.json'') \<and>
   isl (load_policy no_strings example_files ''extra.json'') \<and>
   defective no_strings (example_files ''typed.json'') \<and>
   isl (load_policy no_strings example_files ''typed.json'') \<and>
   defective no_strings (coercion_files ''huge.json'') \<and>
   isl (load_policy no_strings coercion_files ''huge.json'') \<and>
   defective no_strings (coercion_files ''fraction.json'') \<and>
   isl (load_policy no_strings coercion_files ''fraction.json'') \<and>
   defective no_strings (coercion_files ''two.json'') \<and>
   isl (load_policy no_strings coercion_files ''two.json'') \<and>
   \<not> defective no_strings (coercion_files ''converts.json'') \<and>
   (\<exists>policy. load_policy no_strings coercion_files ''converts.json'' = Inr policy \<and>
      policy_to_dict policy =
        [(''max_latency_ms'', JInt 2000), (''require_accuracy'', JBool True),
         (''enable_toxicity'', JBool True), (''toxicity_threshold'', JFloat 1),
         (''enable_pii'', JBool True)])"
proof -
  have d: "defective no_strings (example_files ''missing.json'')"
    "defective no_strings (example_files ''broken.json'')"
    "defective no_strings (example_files ''extra.json'')"
    "defective no_strings (example_files ''typed.json'')"
    by (simp_all add: example_files_def unknown_key_def refused_value_def policy_schema_def)
  have c: "defective no_strings (coercion_files ''huge.json'')"
    "defective no_strings (coercion_files ''fraction.json'')"
    "defective no_strings (coercion_files ''two.json'')"
    by (simp_all add: coercion_files_def unknown_key_def refused_value_def policy_schema_def
        fraction_not_whole)
  have nd: "\<not> defective no_strings (coercion_files ''converts.json'')"
    by (simp add: coercion_files_def unknown_key_def refused_value_def policy_schema_def)
  have e: "expected_fields no_strings
             [(''max_latency_ms'', JFloat 2000), (''toxicity_threshold'', JInt 1),
              (''enable_pii'', JInt 1)] =
           [(''max_latency_ms'', JInt 2000), (''require_accuracy'', JBool True),
            (''enable_toxicity'', JBool True), (''toxicity_threshold'', JFloat 1),
            (''enable_pii'', JBool True)]"
    by (simp add: expected_fields_def policy_schema_def)
  from load_policy_all_or_nothing [of no_strings example_files "''missing.json''"]
    load_policy_all_or_nothing [of no_strings example_files "''broken.json''"]
    load_policy_all_or_nothing [of no_strings example_files "''extra.json''"]
    load_policy_all_or_nothing [of no_strings example_files "''typed.json''"] d
  have f: "isl (load_policy no_strings example_files ''missing.json'')"
    "isl (load_policy no_strings example_files ''broken.json'')"
    "isl (load_policy no_strings example_files ''extra.json'')"
    "isl (load_policy no_strings example_files ''typed.json'')"
    by simp_all
  from load_policy_all_or_nothing [of no_strings coercion_files "''huge.json''"]
    load_policy_all_or_nothing [of no_strings coercion_files "''fraction.json''"]
    load_policy_all_or_nothing [of no_strings coercion_files "''two.json''"] c
  have g: "isl (load_policy no_strings coercion_files ''huge.json'')"
    "isl (load_policy no_strings coercion_files ''fraction.json'')"
    "isl (load_policy no_strings coercion_files ''two.json'')"
    by simp_all
  from load_policy_all_or_nothing [of no_strings coercion_files "''converts.json''"] nd
  obtain data policy where
    "coercion_files ''converts.json'' = Doc (JObj data)"
    "load_policy no_strings coercion_files ''converts.json'' = Inr policy"
    "policy_to_dict policy = expected_fields no_strings data"
    by blast
  then have "\<exists>policy. load_policy no_strings coercion_files ''converts.json'' = Inr policy \<and>
      policy_to_dict policy =
        [(''max_latency_ms'', JInt 2000), (''require_accuracy'', JBool True),
         (''enable_toxicity'', JBool True), (''toxicity_threshold'', JFloat 1),
         (''enable_pii'', JBool True)]"
    using e by (auto simp: coercion_files_def)
  with d c nd f g show ?thesis by simp
qed

text \<open>
  Claim C6 as stated does not hold: a value of another type than the field's is
  converted when the conversion is exact. The number 1 for the boolean \<open>enable_pii\<close>
  loads as \<open>True\<close>.
\<close>

theorem load_policy_coerces:
  "\<not> declared_type ''enable_pii'' (JInt 1) \<and>
   load_policy no_strings (\<lambda>path. Doc (JObj [(''enable_pii'', JInt 1)])) ''policy.json'' =
     Inr \<lparr>max_latency_ms = 2000, require_accuracy = True, enable_toxicity = True,
           toxicity_threshold = 1/2, enable_pii = True\<rparr>"
  by (simp add: load_policy_def validate_policy_def policy_fields_def field_def)

text \<open>
  Claim C7 as stated does not hold: the field is declared \<open>int\<close> without a bound, and a
  policy file whose \<open>max_latency_ms\<close> is 0 loads.
\<close>

theorem zero_latency_policy_loads:
  "load_policy no_strings (\<lambda>path. Doc (JObj [(''max_latency_ms'', JInt 0)])) ''policy.json'' =
     Inr \<lparr>max_latency_ms = 0, require_accuracy = True, enable_toxicity = True,
           toxicity_threshold = 1/2, enable_pii = False\<rparr>"
  by (simp add: load_policy_def validate_policy_def policy_fields_def field_def)

lemma field_update_same: "field f (AList.update k v data) k dflt = f v"
  by (simp add: field_def update_conv')

lemma field_update_other: "k' \<noteq> k \<Longrightarrow> field f (AList.update k v data) k' dflt = field f data k' dflt"
  by (simp add: field_def update_conv')

lemma extra_keys_update:
  assumes "k \<in> set policy_fields"
  shows "list_ex (\<lambda>k. k \<notin> set policy_fields) (map fst (AList.update k v data)) =
         list_ex (\<lambda>k. k \<notin> set policy_fields) (map fst data)"
proof -
  have "fst ` set (AList.update k v data) = {k} \<union> fst ` set data"
    by (rule dom_update)
  with assms show ?thesis
    by (auto simp: list_ex_iff)
qed

text \<open>
  Claim C7, as amended. \<open>max_latency_ms\<close> is an integer without a sign check: when a
  policy file loads, the same file with \<open>max_latency_ms\<close> set to any integer, zero and
  negative ones included, loads too, and the policy differs in that field only.
\<close>

theorem any_integer_latency_loads:
  assumes "fs p = Doc (JObj data)" and "load_policy S fs p = Inr policy"
  shows "load_policy S (fs(p := Doc (JObj (AList.update ''max_latency_ms'' (JInt n) data)))) p =
         Inr (policy\<lparr>max_latency_ms := n\<rparr>)"
proof -
  let ?data = "AList.update ''max_latency_ms'' (JInt n) data"
  from assms have v: "validate_policy S data = Some policy"
    by (simp add: load_policy_def split: option.splits)
  then have u: "\<not> list_ex (\<lambda>k. k \<notin> set policy_fields) (map fst data)"
    by (auto simp: validate_policy_def split: if_splits)
  have u': "\<not> list_ex (\<lambda>k. k \<notin> set policy_fields) (map fst ?data)"
    using u extra_keys_update [of "''max_latency_ms''" "JInt n" data]
    by (simp add: policy_fields_def)
  from v u obtain a b c d e where
    f: "field (validate_bool S) data ''require_accuracy'' True = Some b"
       "field (validate_bool S) data ''enable_toxicity'' True = Some c"
       "field (validate_float S) data ''toxicity_threshold'' (1/2) = Some d"
       "field (validate_bool S) data ''enable_pii'' False = Some e"
    and p: "policy = \<lparr>max_latency_ms = a, require_accuracy = b, enable_toxicity = c,
                   toxicity_threshold = d, enable_pii = e\<rparr>"
    by (simp add: validate_policy_def split: option.splits) blast
  have "validate_policy S ?data = Some (policy\<lparr>max_latency_ms := n\<rparr>)"
    using u' by (simp add: validate_policy_def field_update_same field_update_other f p)
  then show ?thesis
    by (simp add: load_policy_def)
qed

theorem any_integer_latency_loads_witness:
  "example_files ''policy.json'' =
     Doc (JObj [(''max_latency_ms'', JInt 1500), (''enable_pii'', JBool True)]) \<and>
   load_policy no_strings example_files ''policy.json'' =
     Inr \<lparr>max_latency_ms = 1500, require_accuracy = True, enable_toxicity = True,
           toxicity_threshold = 1/2, enable_pii = True\<rparr> \<and>
   load_policy no_strings
     (example_files(''policy.json'' :=
        Doc (JObj [(''max_latency_ms'', JInt (- 5)), (''enable_pii'', JBool True)])))
     ''policy.json'' =
     Inr \<lparr>max_latency_ms = - 5, require_accuracy = True, enable_toxicity = True,
           toxicity_threshold = 1/2, enable_pii = True\<rparr>"
proof -
  have h1: "example_files ''policy.json'' =
     Doc (JObj [(''max_latency_ms'', JInt 1500), (''enable_pii'', JBool True)])"
    by (simp add: example_files_def)
  have h2: "load_policy no_strings example_files ''policy.json'' =
     Inr \<lparr>max_latency_ms = 1500, require_accuracy = True, enable_toxicity = True,
           toxicity_threshold = 1/2, enable_pii = True\<rparr>"
    by (simp add: load_policy_def example_files_def validate_policy_def policy_fields_def field_def)
  from any_integer_latency_loads [OF h1 h2, of "- 5"] h1 h2 show ?thesis
    by simp
qed

section \<open>The probes of the provider\<close>

text \<open>
  Claim C8. When the request to the backend raises (connection refused, timeout),
  \<open>list_models\<close> returns the empty list and \<open>is_available\<close> returns false; neither
  raises.
\<close>

theorem probes_on_request_failure:
  "list_models RequestFailed = Inr [] \<and> is_available RequestFailed = False"
  by (simp add: list_models_def is_available_def)

lemma probes_on_http_error:
  assumes "400 \<le> status" and "status < 600"
  shows "list_models (Response status body) = Inr []" "is_available (Response status body) = False"
  using assms by (simp_all add: list_models_def is_available_def)

lemma list_models_example:
  "list_models (Response 200 (Some (JObj [(''models'',
      JArr [JObj [(''name'', JStr ''mistral:7b'')], JObj [(''name'', JStr ''llama3:latest'')],
            JObj [(''size'', JInt 1)]])]))) = Inr [''llama3'', ''mistral'']"
  by (simp add: list_models_def model_name_def less_eq_char_def less_char_def)

end
